theory Spec2Isabelle
  imports Complex_Main "HOL-Library.AList"
begin

section \<open>Python values, errors and containers\<close>

text \<open>
  The development embeds the data pipeline of \<^verbatim>\<open>src/lib/datasets/dataset/jde.py\<close> and the
  loss of \<^verbatim>\<open>src/lib/trains/mot.py\<close>. Every \<^verbatim>\<open>raise\<close> and every failing index of the source is a
  value \<open>Inl e\<close>. Floating-point numbers (\<^verbatim>\<open>float\<close>, \<^verbatim>\<open>np.float32\<close>, \<^verbatim>\<open>np.float64\<close>, scalar tensors)
  are modelled by exact reals: rounding of the machine formats is outside the model.
\<close>

datatype error =
    KeyError
  | IndexError
  | AttributeError
  | TypeError
  | ZeroDivisionError
  | ValueError string

text \<open>
  The position that index \<open>i\<close> denotes along an axis of length \<open>n\<close>: indices from \<open>-n\<close> to \<open>-1\<close>
  count from the end, anything outside \<open>[-n, n)\<close> is out of range.
\<close>

definition py_index :: "nat \<Rightarrow> int \<Rightarrow> nat option" where
  "py_index n i =
     (if 0 \<le> i \<and> i < int n then Some (nat i)
      else if - int n \<le> i \<and> i < 0 then Some (nat (int n + i))
      else None)"

text \<open>\<^verbatim>\<open>xs[i]\<close> on a list or along the first axis of an array.\<close>

definition py_get :: "'a list \<Rightarrow> int \<Rightarrow> error + 'a" where
  "py_get xs i = (case py_index (length xs) i of None \<Rightarrow> Inl IndexError | Some j \<Rightarrow> Inr (xs ! j))"

text \<open>\<^verbatim>\<open>xs[k] = v\<close> for a loop counter \<open>k \<ge> 0\<close>: IndexError at and past the end.\<close>

definition py_set :: "'a list \<Rightarrow> nat \<Rightarrow> 'a \<Rightarrow> error + 'a list" where
  "py_set xs k v = (if k < length xs then Inr (xs[k := v]) else Inl IndexError)"

text \<open>\<^verbatim>\<open>d[k]\<close> on a dict or OrderedDict, kept as an association list in insertion order.\<close>

definition dict_get :: "('k \<times> 'v) list \<Rightarrow> 'k \<Rightarrow> error + 'v" where
  "dict_get d k = (case map_of d k of None \<Rightarrow> Inl KeyError | Some v \<Rightarrow> Inr v)"


text \<open>\<^verbatim>\<open>int(x)\<close> and \<^verbatim>\<open>astype(np.int32)\<close>: truncation towards zero.\<close>

definition py_int :: "real \<Rightarrow> int" where
  "py_int x = (if 0 \<le> x then \<lfloor>x\<rfloor> else \<lceil>x\<rceil>)"

text \<open>\<^verbatim>\<open>np.clip(x, lo, hi)\<close> is \<^verbatim>\<open>minimum(maximum(x, lo), hi)\<close>.\<close>

definition np_clip :: "real \<Rightarrow> real \<Rightarrow> real \<Rightarrow> real" where
  "np_clip x lo hi = min (max x lo) hi"

text \<open>
  One row of a label array, \<^verbatim>\<open>[class, identity, c2, c3, c4, c5]\<close>. Columns 0 and 1 hold the
  integers of the label file; columns 2 to 5 are normalized \<^verbatim>\<open>x_center, y_center, width, height\<close>
  in the label files and at the encoder, and pixel \<^verbatim>\<open>x1, y1, x2, y2\<close> inside \<^verbatim>\<open>random_affine\<close>.
\<close>

record label =
  lcls :: int
  lid :: int
  l2 :: real
  l3 :: real
  l4 :: real
  l5 :: real

section \<open>GeometryOps: letterbox\<close>






section \<open>GeometryOps: random\_affine\<close>














type_synonym box = "real \<times> real \<times> real \<times> real"














section \<open>Configuration\<close>

text \<open>The fields of \<^verbatim>\<open>opt\<close> read by the two files.\<close>

record opts =
  opt_K :: nat
  opt_down_ratio :: int
  opt_mse_loss :: bool
  opt_hm_gauss :: int
  opt_unsup :: bool
  opt_unsup_loss :: string
  opt_reg_loss :: string
  opt_dense_wh :: bool
  opt_norm_wh :: bool
  opt_cat_spec_wh :: bool
  opt_reg_offset :: bool
  opt_hm_weight :: real
  opt_wh_weight :: real
  opt_off_weight :: real
  opt_id_weight :: real
  opt_num_stacks :: int
  opt_reid_dim :: nat
  opt_nID :: nat

section \<open>IdentitySpace and JointSampleIndexer: JointDataset.\_\_init\_\_\<close>

text \<open>
  \<^verbatim>\<open>np.loadtxt(lp)\<close> is represented by the rows it parsed: no row gives an array of shape
  \<open>(0,)\<close>, one row a one-dimensional array of its six fields (so \<^verbatim>\<open>lb[1]\<close> is its identity),
  two or more rows a two-dimensional array. Lines 402 to 412 for one dataset:
\<close>

fun max_identity :: "(string \<Rightarrow> label list) \<Rightarrow> string list \<Rightarrow> int \<Rightarrow> int" where
  "max_identity loadtxt [] max_index = max_index"
| "max_identity loadtxt (lp # lps) max_index =
     (case loadtxt lp of
        [] \<Rightarrow> max_identity loadtxt lps max_index
      | [r] \<Rightarrow>
          (let img_max = lid r
           in max_identity loadtxt lps (if img_max > max_index then img_max else max_index))
      | r # r' # rs \<Rightarrow>
          (let img_max = Max (set (map lid (r # r' # rs)))
           in max_identity loadtxt lps (if img_max > max_index then img_max else max_index)))"

text \<open>Lines 401 to 413: \<^verbatim>\<open>self.tid_num[ds] = max_index + 1\<close> for every dataset, in order.\<close>

fun count_identities ::
  "(string \<Rightarrow> label list) \<Rightarrow> (string \<times> string list) list \<Rightarrow> (string \<times> int) list
     \<Rightarrow> (string \<times> int) list" where
  "count_identities loadtxt [] tid_num = tid_num"
| "count_identities loadtxt ((ds, label_paths) # rest) tid_num =
     count_identities loadtxt rest
       (AList.update ds (max_identity loadtxt label_paths (- 1) + 1) tid_num)"

text \<open>Lines 416 to 419: the running \<^verbatim>\<open>last_index\<close>.\<close>

fun assign_start_index ::
  "(string \<times> int) list \<Rightarrow> (string \<times> int) list \<Rightarrow> int \<Rightarrow> (string \<times> int) list \<times> int" where
  "assign_start_index [] tid_start_index last_index = (tid_start_index, last_index)"
| "assign_start_index ((k, v) # rest) tid_start_index last_index =
     assign_start_index rest (AList.update k last_index tid_start_index) (last_index + v)"

text \<open>Lines 425 to 431: \<^verbatim>\<open>self.cds\<close> and \<^verbatim>\<open>self.nF\<close>.\<close>

fun count_images :: "(string \<times> string list) list \<Rightarrow> int list \<Rightarrow> int \<Rightarrow> int list \<times> int" where
  "count_images [] cds nF = (cds, nF)"
| "count_images ((ds, img_files) # rest) cds nF =
     (let img_cnt = int (length img_files);
          nF = nF + img_cnt
      in count_images rest (cds @ [nF - img_cnt]) nF)"

record JointDataset =
  opt :: opts
  img_files :: "(string \<times> string list) list"
  label_files :: "(string \<times> string list) list"
  tid_num :: "(string \<times> int) list"
  tid_start_index :: "(string \<times> int) list"
  nID :: int
  cds :: "int list"
  nF :: int
  max_objs :: nat
  unsup :: bool

text \<open>
  The constructor. \<open>files\<close> is the OrderedDict \<^verbatim>\<open>self.img_files\<close> as lines 390 to 394 read it
  from the manifests (its keys are the keys of the dict \<^verbatim>\<open>paths\<close>, hence distinct), \<open>label_of\<close>
  the path rewriting of line 397 and \<open>loadtxt\<close> the content of the label files.
\<close>

definition JointDataset_init ::
  "opts \<Rightarrow> (string \<times> string list) list \<Rightarrow> (string \<Rightarrow> string) \<Rightarrow> (string \<Rightarrow> label list)
     \<Rightarrow> JointDataset" where
  "JointDataset_init op files label_of loadtxt =
     (let lfs = map (\<lambda>(ds, xs). (ds, map label_of xs)) files;
          tn = count_identities loadtxt lfs [];
          (tsi, last_index) = assign_start_index tn [] 0;
          (cs, n) = count_images files [] 0
      in \<lparr>opt = op, img_files = files, label_files = lfs, tid_num = tn,
          tid_start_index = tsi, nID = last_index + 1, cds = cs, nF = n,
          max_objs = opt_K op, unsup = opt_unsup op\<rparr>)"

section \<open>JointDataset.\_\_getitem\_\_: locating the sample\<close>

text \<open>Lines 449 to 454: the last dataset whose start is at most the index wins.\<close>

fun find_dataset ::
  "string list \<Rightarrow> int \<Rightarrow> nat \<Rightarrow> int list \<Rightarrow> string option \<times> int
     \<Rightarrow> error + (string option \<times> int)" where
  "find_dataset keys files_index i [] acc = Inr acc"
| "find_dataset keys files_index i (c # cs) acc =
     (if files_index \<ge> c then
        (case py_get keys (int i) of
           Inl e \<Rightarrow> Inl e
         | Inr ds \<Rightarrow> find_dataset keys files_index (Suc i) cs (Some ds, c))
      else find_dataset keys files_index (Suc i) cs acc)"

text \<open>\<^verbatim>\<open>d[ds]\<close> where \<open>ds\<close> may still be \<^verbatim>\<open>None\<close>, which is no key of the dict.\<close>

definition dict_get_opt :: "(string \<times> 'v) list \<Rightarrow> string option \<Rightarrow> error + 'v" where
  "dict_get_opt d ds = (case ds of None \<Rightarrow> Inl KeyError | Some k \<Rightarrow> dict_get d k)"

text \<open>Lines 449 to 458: the dataset, the image path and the label path of a flat index.\<close>

definition locate :: "JointDataset \<Rightarrow> int \<Rightarrow> error + (string option \<times> string \<times> string)" where
  "locate jd files_index =
     (case find_dataset (map fst (label_files jd)) files_index 0 (cds jd) (None, 0) of
        Inl e \<Rightarrow> Inl e
      | Inr (ds, start_index) \<Rightarrow>
          (case dict_get_opt (img_files jd) ds of
             Inl e \<Rightarrow> Inl e
           | Inr imgs \<Rightarrow>
               (case py_get imgs (files_index - start_index) of
                  Inl e \<Rightarrow> Inl e
                | Inr img_path \<Rightarrow>
                    (case dict_get_opt (label_files jd) ds of
                       Inl e \<Rightarrow> Inl e
                     | Inr lbls \<Rightarrow>
                         (case py_get lbls (files_index - start_index) of
                            Inl e \<Rightarrow> Inl e
                          | Inr label_path \<Rightarrow> Inr (ds, img_path, label_path))))))"

section \<open>LoadImagesAndLabels.get\_data\<close>

text \<open>
  What the source takes from outside this file: decoding and flipping of images, the body of the
  per-view loop of \<^verbatim>\<open>get_data\<close> (lines 173 to 235: colour jitter, letterbox, label loading,
  random affine, conversion to normalized boxes, random flip, transforms), the shape of a
  transformed image, and the heatmap helpers of \<^verbatim>\<open>utils.image\<close>.
\<close>

record ('raw, 'img, 'hm) ext =
  imread :: "string \<Rightarrow> 'raw option"
  raw_shape :: "'raw \<Rightarrow> int \<times> int"
  cv2_flip :: "'raw \<Rightarrow> 'raw"
  view_body :: "string \<Rightarrow> bool \<Rightarrow> 'raw \<Rightarrow> string \<Rightarrow> error + ('img \<times> label list)"
  img_shape :: "'img \<Rightarrow> int \<times> int \<times> int"
  hm_zeros :: "int \<Rightarrow> int \<Rightarrow> 'hm"
  gaussian_radius :: "int \<times> int \<Rightarrow> real"
  draw_msra_gaussian :: "'hm \<Rightarrow> int \<times> int \<Rightarrow> int \<Rightarrow> 'hm"
  draw_umich_gaussian :: "'hm \<Rightarrow> int \<times> int \<Rightarrow> int \<Rightarrow> 'hm"

text \<open>
  Line 172: the loop over \<^verbatim>\<open>images.items()\<close>, storing the processed image and the labels of
  each key. A Python \<^verbatim>\<open>None\<close> stored in a dict is the value \<open>None\<close> here.
\<close>

fun process_views ::
  "('raw, 'img, 'hm) ext \<Rightarrow> bool \<Rightarrow> string \<Rightarrow> (string \<times> 'raw) list
     \<Rightarrow> (string \<times> 'img option) list \<Rightarrow> (string \<times> label list option) list
     \<Rightarrow> error + ((string \<times> 'img option) list \<times> (string \<times> label list option) list)" where
  "process_views E us label_path [] images labels = Inr (images, labels)"
| "process_views E us label_path ((key, raw) # rest) images labels =
     (case view_body E key us raw label_path of
        Inl e \<Rightarrow> Inl e
      | Inr (im, lb) \<Rightarrow>
          process_views E us label_path rest
            (AList.update key (Some im) images) (AList.update key (Some lb) labels))"

text \<open>\<^verbatim>\<open>get_data(img_path, label_path, unsup)\<close> returns \<open>(images, labels, img_path, (h, w))\<close>.\<close>

definition get_data ::
  "('raw, 'img, 'hm) ext \<Rightarrow> string \<Rightarrow> string \<Rightarrow> bool
     \<Rightarrow> error + ((string \<times> 'img option) list \<times> (string \<times> label list option) list
                 \<times> string \<times> (int \<times> int))" where
  "get_data E img_path label_path us =
     (case imread E img_path of
        None \<Rightarrow> Inl (ValueError (''File corrupt '' @ img_path))
      | Some orig \<Rightarrow>
          (let hw = raw_shape E orig;
               raws = (if us then [(''orig'', orig), (''flipped'', cv2_flip E orig)]
                       else [(''orig'', orig)])
           in case process_views E us label_path raws [] [] of
                Inl e \<Rightarrow> Inl e
              | Inr (images, labels) \<Rightarrow>
                  if map_of images ''flipped'' = None
                  then Inr (AList.update ''flipped'' None images,
                            AList.update ''flipped'' None labels, img_path, hw)
                  else Inr (images, labels, img_path, hw)))"

section \<open>GroundTruthEncoder: JointDataset.\_\_getitem\_\_\<close>

text \<open>The arrays filled by the encoding loop.\<close>

record 'hm gt =
  hm :: "'hm list"
  wh :: "(real \<times> real) list"
  reg :: "(real \<times> real) list"
  ind :: "int list"
  reg_mask :: "nat list"
  ids :: "int list"

text \<open>Lines 465 to 468: identities above \<open>-1\<close> are shifted by the start index of the dataset.\<close>

fun offset_ids :: "(string \<times> int) list \<Rightarrow> string option \<Rightarrow> label list \<Rightarrow> error + label list" where
  "offset_ids tsi ds [] = Inr []"
| "offset_ids tsi ds (l # ls) =
     (if lid l > - 1 then
        (case dict_get_opt tsi ds of
           Inl e \<Rightarrow> Inl e
         | Inr start \<Rightarrow>
             (case offset_ids tsi ds ls of
                Inl e \<Rightarrow> Inl e
              | Inr ls' \<Rightarrow> Inr (l\<lparr>lid := lid l + start\<rparr> # ls')))
      else
        (case offset_ids tsi ds ls of
           Inl e \<Rightarrow> Inl e
         | Inr ls' \<Rightarrow> Inr (l # ls')))"

text \<open>
  Lines 503 to 510 and 541 to 547: the box of a row on the output grid, as
  \<open>(bbox[0], bbox[1], bbox[2], bbox[3])\<close> after scaling and clipping of the centre.
\<close>

definition grid_bbox :: "int \<Rightarrow> int \<Rightarrow> label \<Rightarrow> box" where
  "grid_bbox output_h output_w l =
     (let b0 = l2 l * of_int output_w; b2 = l4 l * of_int output_w;
          b1 = l3 l * of_int output_h; b3 = l5 l * of_int output_h;
          b0 = np_clip b0 0 (of_int (output_w - 1));
          b1 = np_clip b1 0 (of_int (output_h - 1))
      in (b0, b1, b2, b3))"

text \<open>Lines 502 to 523: the body of the encoding loop for object \<open>k\<close>.\<close>

definition encode_one ::
  "('raw, 'img, 'hm) ext \<Rightarrow> opts \<Rightarrow> int \<Rightarrow> int \<Rightarrow> label list \<Rightarrow> nat \<Rightarrow> 'hm gt \<Rightarrow> error + 'hm gt" where
  "encode_one E op output_h output_w labels k g =
     (case py_get labels (int k) of
        Inl e \<Rightarrow> Inl e
      | Inr l \<Rightarrow>
          (case grid_bbox output_h output_w l of (b0, b1, b2, b3) \<Rightarrow>
             let cls_id = lcls l; h = b3; w = b2 in
             if 0 < h \<and> 0 < w then
               (let radius = gaussian_radius E (\<lceil>h\<rceil>, \<lceil>w\<rceil>);
                    radius = max 0 (py_int radius);
                    radius = (if opt_mse_loss op then opt_hm_gauss op else radius);
                    ct = (b0, b1);
                    ct_int = (py_int b0, py_int b1);
                    draw_gaussian = (if opt_mse_loss op then draw_msra_gaussian E
                                     else draw_umich_gaussian E)
                in case py_index (length (hm g)) cls_id of
                     None \<Rightarrow> Inl IndexError
                   | Some c \<Rightarrow>
                       (let hm' = (hm g)[c := draw_gaussian (hm g ! c) ct_int radius]
                        in case py_set (wh g) k (1 * w, 1 * h) of
                             Inl e \<Rightarrow> Inl e
                           | Inr wh' \<Rightarrow>
                        (case py_set (ind g) k (snd ct_int * output_w + fst ct_int) of
                             Inl e \<Rightarrow> Inl e
                           | Inr ind' \<Rightarrow>
                        (case py_set (reg g) k (fst ct - of_int (fst ct_int),
                                                snd ct - of_int (snd ct_int)) of
                             Inl e \<Rightarrow> Inl e
                           | Inr reg' \<Rightarrow>
                        (case py_set (reg_mask g) k 1 of
                             Inl e \<Rightarrow> Inl e
                           | Inr reg_mask' \<Rightarrow>
                        (case py_set (ids g) k (lid l) of
                             Inl e \<Rightarrow> Inl e
                           | Inr ids' \<Rightarrow>
                               Inr \<lparr>hm = hm', wh = wh', reg = reg', ind = ind',
                                    reg_mask = reg_mask', ids = ids'\<rparr>))))))
             else Inr g))"

text \<open>Line 501: \<^verbatim>\<open>for k in range(num_objs)\<close>.\<close>

fun encode_objs ::
  "('raw, 'img, 'hm) ext \<Rightarrow> opts \<Rightarrow> int \<Rightarrow> int \<Rightarrow> label list \<Rightarrow> nat list \<Rightarrow> 'hm gt \<Rightarrow> error + 'hm gt" where
  "encode_objs E op output_h output_w labels [] g = Inr g"
| "encode_objs E op output_h output_w labels (k # ks) g =
     (case encode_one E op output_h output_w labels k g of
        Inl e \<Rightarrow> Inl e
      | Inr g' \<Rightarrow> encode_objs E op output_h output_w labels ks g')"

text \<open>Lines 540 to 552: the body of the loop over the flipped labels for object \<open>k\<close>.\<close>

definition flipped_one :: "int \<Rightarrow> int \<Rightarrow> label list \<Rightarrow> nat \<Rightarrow> int list \<Rightarrow> error + int list" where
  "flipped_one output_h output_w flipped_labels k flipped_ind =
     (case py_get flipped_labels (int k) of
        Inl e \<Rightarrow> Inl e
      | Inr flipped_label \<Rightarrow>
          (case grid_bbox output_h output_w flipped_label of (b0, b1, b2, b3) \<Rightarrow>
             let h = b3; w = b2 in
             if 0 < h \<and> 0 < w then
               (let ct_int = (py_int b0, py_int b1)
                in py_set flipped_ind k (snd ct_int * output_w + fst ct_int))
             else Inr flipped_ind))"

text \<open>Line 539: \<^verbatim>\<open>for k in range(num_objs)\<close>.\<close>

fun flipped_objs :: "int \<Rightarrow> int \<Rightarrow> label list \<Rightarrow> nat list \<Rightarrow> int list \<Rightarrow> error + int list" where
  "flipped_objs output_h output_w flipped_labels [] flipped_ind = Inr flipped_ind"
| "flipped_objs output_h output_w flipped_labels (k # ks) flipped_ind =
     (case flipped_one output_h output_w flipped_labels k flipped_ind of
        Inl e \<Rightarrow> Inl e
      | Inr f' \<Rightarrow> flipped_objs output_h output_w flipped_labels ks f')"

text \<open>The dict \<^verbatim>\<open>ret\<close>; \<open>ret_flipped\<close> holds \<^verbatim>\<open>flipped_img\<close> and \<^verbatim>\<open>flipped_ind\<close> when they are set.\<close>

record ('img, 'hm) ret =
  ret_img :: 'img
  ret_gt :: "'hm gt"
  ret_flipped :: "('img \<times> int list) option"
  ret_num_objs :: nat

text \<open>Lines 478 to 494: the zero arrays of capacity \<^verbatim>\<open>max_objs\<close>; \<^verbatim>\<open>num_classes\<close> is 1.\<close>

definition gt_zeros :: "('raw, 'img, 'hm) ext \<Rightarrow> nat \<Rightarrow> int \<Rightarrow> int \<Rightarrow> 'hm gt" where
  "gt_zeros E n output_h output_w =
     \<lparr>hm = [hm_zeros E output_h output_w], wh = replicate n (0, 0), reg = replicate n (0, 0),
      ind = replicate n 0, reg_mask = replicate n 0, ids = replicate n 0\<rparr>"

text \<open>
  Lines 470 to 569, after the labels have been shifted. The first component of the result is
  what line 475 prints. \<^verbatim>\<open>np.zeros\<close> refuses a negative dimension. The \<^verbatim>\<open>meta\<close> entry of debug
  runs is left out.
\<close>

definition encode_sample ::
  "('raw, 'img, 'hm) ext \<Rightarrow> JointDataset \<Rightarrow> 'img \<Rightarrow> label list \<Rightarrow> 'img option \<Rightarrow> label list option
     \<Rightarrow> (nat \<times> nat) list \<times> (error + ('img, 'hm) ret)" where
  "encode_sample E jd im labels flipped_img flipped_labels =
     (if opt_down_ratio (opt jd) = 0 then ([], Inl ZeroDivisionError)
      else
        let output_h = fst (snd (img_shape E im)) div opt_down_ratio (opt jd);
            output_w = snd (snd (img_shape E im)) div opt_down_ratio (opt jd)
        in case flipped_labels of
             None \<Rightarrow> ([], Inl AttributeError)
           | Some fl \<Rightarrow>
               (let printed = (if length labels \<noteq> length fl then [(length labels, length fl)]
                               else []);
                    num_objs = length labels
                in if output_h < 0 \<or> output_w < 0
                   then (printed, Inl (ValueError ''negative dimensions are not allowed''))
                   else
                     case encode_objs E (opt jd) output_h output_w labels [0..<num_objs]
                            (gt_zeros E (max_objs jd) output_h output_w) of
                       Inl e \<Rightarrow> (printed, Inl e)
                     | Inr g \<Rightarrow>
                         (case flipped_img of
                            None \<Rightarrow>
                              (printed, Inr \<lparr>ret_img = im, ret_gt = g, ret_flipped = None,
                                             ret_num_objs = num_objs\<rparr>)
                          | Some fi \<Rightarrow>
                              (case flipped_objs output_h output_w fl [0..<num_objs]
                                      (replicate (max_objs jd) 0) of
                                 Inl e \<Rightarrow> (printed, Inl e)
                               | Inr flipped_ind \<Rightarrow>
                                   (printed, Inr \<lparr>ret_img = im, ret_gt = g,
                                                  ret_flipped = Some (fi, flipped_ind),
                                                  ret_num_objs = num_objs\<rparr>)))))"

text \<open>\<^verbatim>\<open>JointDataset.__getitem__(files_index)\<close>.\<close>

definition getitem ::
  "('raw, 'img, 'hm) ext \<Rightarrow> JointDataset \<Rightarrow> int \<Rightarrow> (nat \<times> nat) list \<times> (error + ('img, 'hm) ret)" where
  "getitem E jd files_index =
     (case locate jd files_index of
        Inl e \<Rightarrow> ([], Inl e)
      | Inr (ds, img_path, label_path) \<Rightarrow>
          (case get_data E img_path label_path (unsup jd) of
             Inl e \<Rightarrow> ([], Inl e)
           | Inr (img_dict, lbl_dict, img_path', hw) \<Rightarrow>
               (case dict_get img_dict ''orig'' of
                  Inl e \<Rightarrow> ([], Inl e)
                | Inr im_o \<Rightarrow>
               (case dict_get lbl_dict ''orig'' of
                  Inl e \<Rightarrow> ([], Inl e)
                | Inr labels_o \<Rightarrow>
               (case dict_get img_dict ''flipped'' of
                  Inl e \<Rightarrow> ([], Inl e)
                | Inr flipped_img \<Rightarrow>
               (case dict_get lbl_dict ''flipped'' of
                  Inl e \<Rightarrow> ([], Inl e)
                | Inr flipped_labels \<Rightarrow>
               (case labels_o of
                  None \<Rightarrow> ([], Inl TypeError)
                | Some labels0 \<Rightarrow>
               (case offset_ids (tid_start_index jd) ds labels0 of
                  Inl e \<Rightarrow> ([], Inl e)
                | Inr labels \<Rightarrow>
               (case im_o of
                  None \<Rightarrow> ([], Inl AttributeError)
                | Some im \<Rightarrow>
                    encode_sample E jd im labels flipped_img flipped_labels)))))))))"

section \<open>MultiTaskLoss: MotLoss\<close>

text \<open>The loss modules of \<^verbatim>\<open>models.losses\<close> and \<^verbatim>\<open>torch.nn\<close> that the constructor selects.\<close>

datatype criterion =
    MSELoss
  | FocalLoss
  | RegL1Loss
  | RegLoss
  | L1Loss_sum
  | NormRegL1Loss
  | RegWeightedL1Loss
  | CrossEntropyLoss
  | NTXentLoss
  | TripletLoss string

record MotLoss =
  ml_opt :: opts
  loss_states :: "string list"
  emb_dim :: nat
  ml_nID :: nat
  crit :: criterion
  crit_reg :: "criterion option"
  crit_wh :: "criterion option"
  IDLoss :: criterion
  SelfSupLoss :: "criterion option"
  emb_scale :: real
  s_det :: real
  s_id :: real

text \<open>
  \<^verbatim>\<open>MotLoss.__init__(opt, loss_states)\<close>. \<^verbatim>\<open>math.log\<close> raises ValueError outside its domain; the
  identity count \<^verbatim>\<open>opt.nID\<close> is a natural number.
\<close>

definition MotLoss_init :: "opts \<Rightarrow> string list \<Rightarrow> error + MotLoss" where
  "MotLoss_init op states =
     (let c = (if opt_mse_loss op then MSELoss else FocalLoss);
          c_reg = (if opt_reg_loss op = ''l1'' then Some RegL1Loss
                   else if opt_reg_loss op = ''sl1'' then Some RegLoss else None);
          c_wh = (if opt_dense_wh op then Some L1Loss_sum
                  else if opt_norm_wh op then Some NormRegL1Loss
                  else if opt_cat_spec_wh op then Some RegWeightedL1Loss else c_reg);
          c_self = (if opt_unsup_loss op = ''nt_xent'' then Some NTXentLoss
                    else if opt_unsup_loss op = ''triplet_all'' then Some (TripletLoss ''batch_all'')
                    else if opt_unsup_loss op = ''triplet_hard'' then Some (TripletLoss ''batch_hard'')
                    else None)
      in if opt_unsup op \<and> c_self = None
         then Inl (ValueError (opt_unsup_loss op @ '' is not a supported self-supervised loss. ''
                                @ ''Choose nt_xent, triplet_all, or triplet_hard''))
         else if int (opt_nID op) - 1 \<le> 0 then Inl (ValueError ''math domain error'')
         else Inr \<lparr>ml_opt = op, loss_states = states, emb_dim = opt_reid_dim op,
                   ml_nID = opt_nID op, crit = c, crit_reg = c_reg, crit_wh = c_wh,
                   IDLoss = CrossEntropyLoss, SelfSupLoss = c_self,
                   emb_scale = sqrt 2 * ln (of_int (int (opt_nID op) - 1)),
                   s_det = - 1.85, s_id = - 1.05\<rparr>)"

text \<open>
  The values the loss modules return on the output of one refinement stage and the batch:
  \<open>f_hm\<close> is \<^verbatim>\<open>self.crit(output['hm'], batch['hm'])\<close>, \<open>f_wh_dense\<close> the dense size loss of line
  79, \<open>f_mask_sum\<close> is \<^verbatim>\<open>batch['dense_wh_mask'].sum()\<close>, \<open>f_wh\<close> and \<open>f_off\<close> are the two calls of
  \<^verbatim>\<open>self.crit_reg\<close>, \<open>f_id\<close> is \<^verbatim>\<open>self.IDLoss(id_output, id_target)\<close> and \<open>f_selfsup\<close> is
  \<^verbatim>\<open>self.SelfSupLoss(id_head, flipped_id_head, batch['num_objs'])\<close> on a stage and its flipped
  counterpart.
\<close>

record 'out crit_values =
  f_hm :: "'out \<Rightarrow> real"
  f_wh_dense :: "'out \<Rightarrow> real"
  f_mask_sum :: real
  f_wh :: "'out \<Rightarrow> real"
  f_off :: "'out \<Rightarrow> real"
  f_id :: "'out \<Rightarrow> real"
  f_selfsup :: "'out \<Rightarrow> 'out \<Rightarrow> real"

text \<open>\<^verbatim>\<open>loss_results[k] += v\<close>: the old value is read first, KeyError without the key.\<close>

definition dict_add :: "(string \<rightharpoonup> real) \<Rightarrow> string \<Rightarrow> real \<Rightarrow> error + (string \<rightharpoonup> real)" where
  "dict_add m k v = (case m k of None \<Rightarrow> Inl KeyError | Some old \<Rightarrow> Inr (m(k \<mapsto> old + v)))"

definition dict_read :: "(string \<rightharpoonup> real) \<Rightarrow> string \<Rightarrow> error + real" where
  "dict_read m k = (case m k of None \<Rightarrow> Inl KeyError | Some v \<Rightarrow> Inr v)"

text \<open>Calling a module that is \<^verbatim>\<open>None\<close> raises TypeError.\<close>

definition call_module :: "criterion option \<Rightarrow> real \<Rightarrow> error + real" where
  "call_module c v = (case c of None \<Rightarrow> Inl TypeError | Some m \<Rightarrow> Inr v)"

text \<open>Lines 73 to 85: the heatmap and size terms of stage \<open>output\<close>.\<close>

definition stage_hm_wh ::
  "'out crit_values \<Rightarrow> MotLoss \<Rightarrow> 'out \<Rightarrow> (string \<rightharpoonup> real) \<Rightarrow> error + (string \<rightharpoonup> real)" where
  "stage_hm_wh C ml output lr =
     (let op = ml_opt ml; n = real_of_int (opt_num_stacks op) in
      case dict_add lr ''hm'' (f_hm C output / n) of
        Inl e \<Rightarrow> Inl e
      | Inr lr \<Rightarrow>
          if 0 < opt_wh_weight op then
            (if opt_dense_wh op then
               (let mask_weight = f_mask_sum C + 1 / 10 ^ 4 in
                case lr ''wh'' of
                  None \<Rightarrow> Inl KeyError
                | Some old \<Rightarrow>
                    (case call_module (crit_wh ml) (f_wh_dense C output) of
                       Inl e \<Rightarrow> Inl e
                     | Inr v \<Rightarrow> dict_add lr ''wh'' ((v / mask_weight) / n)))
             else
               (case lr ''wh'' of
                  None \<Rightarrow> Inl KeyError
                | Some old \<Rightarrow>
                    (case call_module (crit_reg ml) (f_wh C output) of
                       Inl e \<Rightarrow> Inl e
                     | Inr v \<Rightarrow> dict_add lr ''wh'' (v / n))))
          else Inr lr)"

text \<open>Lines 88 to 90: the offset term.\<close>

definition stage_off ::
  "'out crit_values \<Rightarrow> MotLoss \<Rightarrow> 'out \<Rightarrow> (string \<rightharpoonup> real) \<Rightarrow> error + (string \<rightharpoonup> real)" where
  "stage_off C ml output lr =
     (let op = ml_opt ml; n = real_of_int (opt_num_stacks op) in
      if opt_reg_offset op \<and> 0 < opt_off_weight op then
        (case lr ''off'' of
           None \<Rightarrow> Inl KeyError
         | Some old \<Rightarrow>
             (case call_module (crit_reg ml) (f_off C output) of
                Inl e \<Rightarrow> Inl e
              | Inr v \<Rightarrow> dict_add lr ''off'' (v / n)))
      else Inr lr)"

text \<open>Lines 97 to 112: the identity term and the self-supervised term of stage \<open>s\<close>.\<close>

definition stage_id ::
  "'out crit_values \<Rightarrow> MotLoss \<Rightarrow> 'out list option \<Rightarrow> nat \<Rightarrow> 'out \<Rightarrow> (string \<rightharpoonup> real)
     \<Rightarrow> error + (string \<rightharpoonup> real)" where
  "stage_id C ml flipped_outputs s output lr =
     (let op = ml_opt ml in
      case (if 0 < opt_id_weight op \<and> \<not> opt_unsup op
            then dict_add lr ''id'' (f_id C output) else Inr lr) of
        Inl e \<Rightarrow> Inl e
      | Inr lr \<Rightarrow>
          (case flipped_outputs of
             None \<Rightarrow> Inr lr
           | Some fo \<Rightarrow>
               if opt_unsup op then
                 (case py_get fo (int s) of
                    Inl e \<Rightarrow> Inl e
                  | Inr flipped_output \<Rightarrow>
                      (case call_module (SelfSupLoss ml) (f_selfsup C output flipped_output) of
                         Inl e \<Rightarrow> Inl e
                       | Inr v \<Rightarrow> Inr (lr(opt_unsup_loss op \<mapsto> v))))
               else Inr lr))"

text \<open>Line 66: \<^verbatim>\<open>for s in range(opt.num_stacks)\<close>.\<close>

fun forward_stages ::
  "'out crit_values \<Rightarrow> MotLoss \<Rightarrow> 'out list \<Rightarrow> 'out list option \<Rightarrow> nat list
     \<Rightarrow> (string \<rightharpoonup> real) \<Rightarrow> error + (string \<rightharpoonup> real)" where
  "forward_stages C ml outputs flipped_outputs [] lr = Inr lr"
| "forward_stages C ml outputs flipped_outputs (s # ss) lr =
     (case py_get outputs (int s) of
        Inl e \<Rightarrow> Inl e
      | Inr output \<Rightarrow>
          (case stage_hm_wh C ml output lr of
             Inl e \<Rightarrow> Inl e
           | Inr lr \<Rightarrow>
               (case stage_off C ml output lr of
                  Inl e \<Rightarrow> Inl e
                | Inr lr \<Rightarrow>
                    (case stage_id C ml flipped_outputs s output lr of
                       Inl e \<Rightarrow> Inl e
                     | Inr lr \<Rightarrow> forward_stages C ml outputs flipped_outputs ss lr))))"

text \<open>Line 60: \<^verbatim>\<open>{loss: 0 for loss in self.loss_states}\<close>.\<close>

definition init_results :: "string list \<Rightarrow> (string \<rightharpoonup> real)" where
  "init_results states = map_of (map (\<lambda>k. (k, 0)) states)"

text \<open>Lines 115 to 128: the combination of the accumulated terms into the scalar total.\<close>

definition combine :: "MotLoss \<Rightarrow> (string \<rightharpoonup> real) \<Rightarrow> error + (real \<times> (string \<rightharpoonup> real))" where
  "combine ml lr =
     (let op = ml_opt ml in
      case dict_read lr ''hm'' of Inl e \<Rightarrow> Inl e | Inr l_hm \<Rightarrow>
      (case dict_read lr ''wh'' of Inl e \<Rightarrow> Inl e | Inr l_wh \<Rightarrow>
      (case dict_read lr ''off'' of Inl e \<Rightarrow> Inl e | Inr l_off \<Rightarrow>
      (let det_loss = opt_hm_weight op * l_hm + opt_wh_weight op * l_wh + opt_off_weight op * l_off in
       case dict_read lr (if \<not> opt_unsup op then ''id'' else opt_unsup_loss op) of
         Inl e \<Rightarrow> Inl e
       | Inr l_id \<Rightarrow>
           (let id_loss = exp (- s_id ml) * l_id;
                total_loss = exp (- s_det ml) * det_loss + exp (- s_id ml) * id_loss
                             + s_det ml + s_id ml;
                total_loss = total_loss * 0.5
            in Inr (total_loss, lr(''loss'' \<mapsto> total_loss)))))))"

text \<open>
  \<^verbatim>\<open>MotLoss.forward(output_dict, batch)\<close>: \<open>output_dict\<close> maps \<^verbatim>\<open>'orig'\<close>, and in self-supervised
  runs \<^verbatim>\<open>'flipped'\<close>, to the list of stage outputs.
\<close>

definition forward ::
  "'out crit_values \<Rightarrow> MotLoss \<Rightarrow> (string \<times> 'out list) list
     \<Rightarrow> error + (real \<times> (string \<rightharpoonup> real))" where
  "forward C ml output_dict =
     (let lr = init_results (loss_states ml) in
      case dict_get output_dict ''orig'' of
        Inl e \<Rightarrow> Inl e
      | Inr outputs \<Rightarrow>
          (let flipped_outputs = map_of output_dict ''flipped'' in
           case forward_stages C ml outputs flipped_outputs
                  [0..<nat (opt_num_stacks (ml_opt ml))] lr of
             Inl e \<Rightarrow> Inl e
           | Inr lr \<Rightarrow> combine ml lr))"

section \<open>Sample inputs\<close>

text \<open>A configuration and two small datasets of three and five images, used to run the model.\<close>

definition opts0 :: opts where
  "opts0 = \<lparr>opt_K = 128, opt_down_ratio = 4, opt_mse_loss = False, opt_hm_gauss = 8,
            opt_unsup = True, opt_unsup_loss = ''nt_xent'', opt_reg_loss = ''l1'',
            opt_dense_wh = False, opt_norm_wh = False, opt_cat_spec_wh = False,
            opt_reg_offset = True, opt_hm_weight = 1, opt_wh_weight = 0.1, opt_off_weight = 1,
            opt_id_weight = 1, opt_num_stacks = 1, opt_reid_dim = 512, opt_nID = 2\<rparr>"

definition two_datasets :: "(string \<times> string list) list" where
  "two_datasets = [(''ds1'', [''a0'', ''a1'', ''a2'']),
                   (''ds2'', [''b0'', ''b1'', ''b2'', ''b3'', ''b4''])]"

definition txt_of :: "string \<Rightarrow> string" where
  "txt_of x = x @ ''.txt''"

definition joint0 :: JointDataset where
  "joint0 = JointDataset_init opts0 two_datasets txt_of (\<lambda>lp. [])"


text \<open>Label rows and label files for the two sample datasets.\<close>

definition row :: "int \<Rightarrow> real \<Rightarrow> real \<Rightarrow> real \<Rightarrow> real \<Rightarrow> label" where
  "row i x y w h = \<lparr>lcls = 0, lid = i, l2 = x, l3 = y, l4 = w, l5 = h\<rparr>"

definition sample_labels :: "string \<Rightarrow> label list" where
  "sample_labels lp =
     (if lp = ''a0.txt'' then [row 0 0.5 0.5 0.2 0.4, row 2 0.25 0.5 0.1 0.2]
      else if lp = ''a1.txt'' then [row (- 1) 0.5 0.5 0.2 0.4]
      else if lp = ''b0.txt'' then [row 1 0.5 0.5 0.2 0.4]
      else [])"

definition joint1 :: JointDataset where
  "joint1 = JointDataset_init opts0 two_datasets txt_of sample_labels"

text \<open>
  Sample collaborators: every image decodes to a 1080 by 1920 frame, every view is a 3 by 608 by
  1088 tensor whose labels are those of the label file, and a heatmap channel is the list of the
  peaks \<open>(x, y, radius)\<close> drawn on it.
\<close>

definition ext0 :: "(unit, int \<times> int \<times> int, (int \<times> int \<times> int) list) ext" where
  "ext0 = \<lparr>imread = (\<lambda>p. Some ()), raw_shape = (\<lambda>r. (1080, 1920)), cv2_flip = (\<lambda>r. r),
           view_body = (\<lambda>key us r lp. Inr ((3, 608, 1088), sample_labels lp)),
           img_shape = (\<lambda>im. im), hm_zeros = (\<lambda>h w. []),
           gaussian_radius = (\<lambda>hw. 2),
           draw_msra_gaussian = (\<lambda>ch c r. ch @ [(fst c, snd c, r)]),
           draw_umich_gaussian = (\<lambda>ch c r. ch @ [(fst c, snd c, r)])\<rparr>"

definition joint_sup :: JointDataset where
  "joint_sup = JointDataset_init (opts0\<lparr>opt_unsup := False\<rparr>) two_datasets txt_of sample_labels"

text \<open>The sample datasets with a capacity of one object per image.\<close>

definition joint_k1 :: JointDataset where
  "joint_k1 = JointDataset_init (opts0\<lparr>opt_K := 1\<rparr>) two_datasets txt_of sample_labels"

text \<open>Collaborators whose flipped view loses all rows but the first, as a random affine warp may.\<close>

definition ext1 :: "(unit, int \<times> int \<times> int, (int \<times> int \<times> int) list) ext" where
  "ext1 = ext0\<lparr>view_body :=
            (\<lambda>key us r lp. Inr ((3, 608, 1088),
                                if key = ''flipped'' then take 1 (sample_labels lp)
                                else sample_labels lp))\<rparr>"

text \<open>
  Sample loss inputs: the output of a stage is a number that every loss module returns as its
  value (the self-supervised module returns the number of the flipped stage), and the loss states
  are those of \<^verbatim>\<open>MotTrainer._get_losses\<close> with offsets enabled.
\<close>

definition crit0 :: "real crit_values" where
  "crit0 = \<lparr>f_hm = (\<lambda>v. v), f_wh_dense = (\<lambda>v. v), f_mask_sum = 1, f_wh = (\<lambda>v. v),
            f_off = (\<lambda>v. v), f_id = (\<lambda>v. v), f_selfsup = (\<lambda>v fv. fv)\<rparr>"

definition states_sup :: "string list" where
  "states_sup = [''loss'', ''hm'', ''wh'', ''off'', ''id'']"

definition states_unsup :: "string list" where
  "states_unsup = [''loss'', ''hm'', ''wh'', ''off'', ''nt_xent'']"

text \<open>Construction followed by one forward pass.\<close>

definition init_forward ::
  "'out crit_values \<Rightarrow> opts \<Rightarrow> string list \<Rightarrow> (string \<times> 'out list) list
     \<Rightarrow> error + (real \<times> (string \<rightharpoonup> real))" where
  "init_forward C op states output_dict =
     (case MotLoss_init op states of Inl e \<Rightarrow> Inl e | Inr ml \<Rightarrow> forward C ml output_dict)"

text \<open>The entries of the returned \<^verbatim>\<open>loss_results\<close> under the given keys.\<close>

definition results_at ::
  "string list \<Rightarrow> error + (real \<times> (string \<rightharpoonup> real)) \<Rightarrow> error + real option list" where
  "results_at ks r = (case r of Inl e \<Rightarrow> Inl e | Inr (total_loss, lr) \<Rightarrow> Inr (map lr ks))"

text \<open>The supervised loss module as constructed, before any training step.\<close>

definition loss_sup :: MotLoss where
  "loss_sup = projr (MotLoss_init (opts0\<lparr>opt_unsup := False\<rparr>) states_sup)"





section \<open>Basic facts about the containers\<close>

lemma count_images_eq:
  "count_images files acc n =
     (acc @ map (\<lambda>i. n + sum_list (map (\<lambda>p. int (length (snd p))) (take i files))) [0..<length files],
      n + sum_list (map (\<lambda>p. int (length (snd p))) files))"
proof (induction files arbitrary: acc n)
  case Nil
  then show ?case by simp
next
  case (Cons p files)
  obtain ds fs where p: "p = (ds, fs)" by (cases p)
  show ?case
    unfolding p
    by (simp add: Cons.IH Let_def map_upt_Suc add.assoc del: upt_Suc)
qed

lemma find_dataset_append:
  "find_dataset keys idx i (cs @ cs') acc =
     (case find_dataset keys idx i cs acc of
        Inl e \<Rightarrow> Inl e
      | Inr a \<Rightarrow> find_dataset keys idx (i + length cs) cs' a)"
  by (induction cs arbitrary: i acc) (auto split: sum.splits)

lemma find_dataset_none:
  "list_all (\<lambda>c. idx < c) cs \<Longrightarrow> find_dataset keys idx i cs acc = Inr acc"
  by (induction cs arbitrary: i) auto

lemma py_get_nat: "k < length xs \<Longrightarrow> py_get xs (int k) = Inr (xs ! k)"
  by (simp add: py_get_def py_index_def)

lemma py_get_int: "0 \<le> j \<Longrightarrow> nat j < length xs \<Longrightarrow> py_get xs j = Inr (xs ! nat j)"
  by (auto simp: py_get_def py_index_def)

lemma find_dataset_total:
  "i + length cs \<le> length keys \<Longrightarrow> \<exists>a. find_dataset keys idx i cs acc = Inr a"
  by (induction cs arbitrary: i acc) (auto simp: py_get_nat)

lemma find_dataset_last:
  assumes "i + length cs < length keys" "c \<le> idx"
  shows "find_dataset keys idx i (cs @ [c]) acc = Inr (Some (keys ! (i + length cs)), c)"
proof -
  obtain a where a: "find_dataset keys idx i cs acc = Inr a"
    using find_dataset_total[of i cs keys idx acc] assms by auto
  have g: "py_get keys (int i + int (length cs)) = Inr (keys ! (i + length cs))"
    using py_get_nat[of "i + length cs" keys] assms by simp
  show ?thesis
    using assms by (simp add: find_dataset_append a g)
qed


lemma init_cds:
  "cds (JointDataset_init op files label_of loadtxt) =
     map (\<lambda>i. sum_list (map (\<lambda>p. int (length (snd p))) (take i files))) [0..<length files]"
  by (simp add: JointDataset_init_def Let_def count_images_eq split: prod.splits)

lemma init_nF:
  "nF (JointDataset_init op files label_of loadtxt) = sum_list (map (\<lambda>p. int (length (snd p))) files)"
  by (simp add: JointDataset_init_def Let_def count_images_eq split: prod.splits)

lemma init_img_files: "img_files (JointDataset_init op files label_of loadtxt) = files"
  by (simp add: JointDataset_init_def Let_def split: prod.splits)

lemma init_label_files:
  "label_files (JointDataset_init op files label_of loadtxt) =
     map (\<lambda>(ds, xs). (ds, map label_of xs)) files"
  by (simp add: JointDataset_init_def Let_def split: prod.splits)

lemma map_fst_label_files: "map fst (map (\<lambda>(ds, xs). (ds, f xs)) files) = map fst files"
  by (induction files) auto

lemma map_of_nth_distinct:
  "distinct (map fst xs) \<Longrightarrow> i < length xs \<Longrightarrow> map_of xs (fst (xs ! i)) = Some (snd (xs ! i))"
  by (simp add: map_of_eq_Some_iff)

section \<open>JointSampleIndexer\<close>

text \<open>
  C8: for every flat index in \<open>[0, nF)\<close>, \<^verbatim>\<open>__getitem__\<close> resolves it to the last dataset \<open>i\<close> (in
  registration order) whose cumulative start \<open>cds ! i\<close>, the sum of the sample counts of the
  datasets before it, is at most the index, and fetches the image and label paths at position
  \<open>index - start\<close> of that dataset; the position is in range, so a dataset is always found.
\<close>

theorem locate_resolves:
  assumes dist: "distinct (map fst files)"
    and lo: "0 \<le> idx"
    and hi: "idx < nF (JointDataset_init op files label_of loadtxt)"
  shows "\<exists>i<length files.
           cds (JointDataset_init op files label_of loadtxt) ! i
             = sum_list (map (\<lambda>p. int (length (snd p))) (take i files)) \<and>
           cds (JointDataset_init op files label_of loadtxt) ! i \<le> idx \<and>
           (\<forall>j<length files. cds (JointDataset_init op files label_of loadtxt) ! j \<le> idx \<longrightarrow> j \<le> i) \<and>
           nat (idx - cds (JointDataset_init op files label_of loadtxt) ! i) < length (snd (files ! i)) \<and>
           locate (JointDataset_init op files label_of loadtxt) idx =
             Inr (Some (fst (files ! i)),
                  snd (files ! i) ! nat (idx - cds (JointDataset_init op files label_of loadtxt) ! i),
                  label_of (snd (files ! i) ! nat (idx - cds (JointDataset_init op files label_of loadtxt) ! i)))"
proof -
  define jd where "jd = JointDataset_init op files label_of loadtxt"
  define cnt where "cnt = (\<lambda>p :: string \<times> string list. int (length (snd p)))"
  define start where "start = (\<lambda>i. sum_list (map cnt (take i files)))"
  define n where "n = length files"
  have cds_eq: "cds jd = map start [0..<n]"
    unfolding jd_def start_def cnt_def n_def by (rule init_cds)
  have len_cds: "length (cds jd) = n" by (simp add: cds_eq)
  have cds_nth: "cds jd ! j = start j" if "j < n" for j
    using that by (simp add: cds_eq)
  have total: "idx < start n"
    using hi unfolding start_def cnt_def n_def by (simp add: init_nF)
  have start0: "start 0 = 0" by (simp add: start_def)
  have start_Suc: "start (Suc j) = start j + cnt (files ! j)" if "j < n" for j
    using that unfolding start_def n_def by (simp add: take_Suc_conv_app_nth)
  have npos: "0 < n"
  proof (rule ccontr)
    assume "\<not> 0 < n"
    then have "start n = 0" by (simp add: start_def n_def)
    with total lo show False by simp
  qed
  define S where "S = {j. j < n \<and> start j \<le> idx}"
  have finS: "finite S" unfolding S_def by simp
  have S0: "0 \<in> S" unfolding S_def using npos lo start0 by simp
  define i where "i = Max S"
  have iS: "i \<in> S" unfolding i_def using finS S0 Max_in by blast
  then have i_lt: "i < n" and i_le: "start i \<le> idx" unfolding S_def by auto
  have i_max: "j \<le> i" if "j < n" "start j \<le> idx" for j
  proof -
    from that have "j \<in> S" unfolding S_def by simp
    then show ?thesis unfolding i_def using finS by simp
  qed
  have bound: "idx - start i < cnt (files ! i)"
  proof (cases "Suc i < n")
    case True
    have "\<not> start (Suc i) \<le> idx" using i_max[of "Suc i"] True by auto
    then show ?thesis using start_Suc[OF i_lt] by simp
  next
    case False
    then have "Suc i = n" using i_lt by simp
    then show ?thesis using total start_Suc[OF i_lt] by simp
  qed
  have pos_lt: "nat (idx - start i) < length (snd (files ! i))"
    using bound i_le unfolding cnt_def by simp
  have split: "cds jd = (take i (cds jd) @ [start i]) @ drop (Suc i) (cds jd)"
    using i_lt len_cds cds_nth[OF i_lt] id_take_nth_drop[of i "cds jd"] by simp
  have rest: "list_all (\<lambda>c. idx < c) (drop (Suc i) (cds jd))"
  proof -
    have "idx < c" if "c \<in> set (drop (Suc i) (cds jd))" for c
    proof -
      from that obtain k where k: "k < length (drop (Suc i) (cds jd))" "c = drop (Suc i) (cds jd) ! k"
        by (auto simp: in_set_conv_nth)
      then have kn: "Suc i + k < n" using len_cds by simp
      have "c = start (Suc i + k)" using k kn len_cds cds_nth[OF kn] by simp
      moreover have "\<not> start (Suc i + k) \<le> idx" using i_max[OF kn] by auto
      ultimately show ?thesis by simp
    qed
    then show ?thesis by (simp add: list_all_iff)
  qed
  define keys where "keys = map fst (label_files jd)"
  have keys_eq: "keys = map fst files"
    unfolding keys_def jd_def by (simp add: init_label_files comp_def case_prod_beta)
  have first: "find_dataset keys idx 0 (take i (cds jd) @ [start i]) (None, 0)
                 = Inr (Some (keys ! i), start i)"
    using find_dataset_last[of 0 "take i (cds jd)" keys "start i" idx "(None, 0)"]
      i_lt i_le len_cds keys_eq n_def by simp
  have found: "find_dataset keys idx 0 (cds jd) (None, 0) = Inr (Some (keys ! i), start i)"
    apply (subst split)
    apply (subst find_dataset_append)
    apply (simp only: first sum.case)
    apply (rule find_dataset_none[OF rest])
    done
  have key_i: "keys ! i = fst (files ! i)" using keys_eq i_lt n_def by simp
  have img: "map_of (img_files jd) (fst (files ! i)) = Some (snd (files ! i))"
    unfolding jd_def init_img_files using map_of_nth_distinct[OF dist] i_lt n_def by simp
  have dist': "distinct (map fst (label_files jd))"
    unfolding jd_def using dist by (simp add: init_label_files comp_def case_prod_beta)
  have lbl_nth: "label_files jd ! i = (fst (files ! i), map label_of (snd (files ! i)))"
    unfolding jd_def init_label_files using i_lt n_def by (simp add: case_prod_beta)
  have lbl: "map_of (label_files jd) (fst (files ! i)) = Some (map label_of (snd (files ! i)))"
    using map_of_nth_distinct[OF dist', of i] lbl_nth i_lt n_def
    unfolding jd_def init_label_files by simp
  have g1: "py_get (snd (files ! i)) (idx - start i) = Inr (snd (files ! i) ! nat (idx - start i))"
    using pos_lt i_le by (simp add: py_get_int)
  have g2: "py_get (map label_of (snd (files ! i))) (idx - start i)
              = Inr (label_of (snd (files ! i) ! nat (idx - start i)))"
    using pos_lt i_le by (simp add: py_get_int)
  have loc: "locate jd idx = Inr (Some (fst (files ! i)), snd (files ! i) ! nat (idx - start i),
                                  label_of (snd (files ! i) ! nat (idx - start i)))"
    unfolding locate_def using found[unfolded keys_def]
    by (simp add: key_i[unfolded keys_def] dict_get_opt_def dict_get_def img lbl g1 g2 keys_def)
  have "i < length files \<and>
        cds jd ! i = sum_list (map (\<lambda>p. int (length (snd p))) (take i files)) \<and>
        cds jd ! i \<le> idx \<and>
        (\<forall>j<length files. cds jd ! j \<le> idx \<longrightarrow> j \<le> i) \<and>
        nat (idx - cds jd ! i) < length (snd (files ! i)) \<and>
        locate jd idx = Inr (Some (fst (files ! i)), snd (files ! i) ! nat (idx - cds jd ! i),
                             label_of (snd (files ! i) ! nat (idx - cds jd ! i)))"
    using i_lt i_le i_max pos_lt loc cds_nth
    by (auto simp: n_def start_def cnt_def)
  then show ?thesis unfolding jd_def by blast
qed

text \<open>
  The theorem at the two sample datasets and index 4, together with all eight indices: 0, 1, 2
  resolve to positions 0, 1, 2 of the first dataset and 3 to 7 to positions 0 to 4 of the second.
\<close>

theorem locate_resolves_witness:
  "distinct (map fst two_datasets) \<and> (0::int) \<le> 4 \<and> 4 < nF joint0 \<and>
   (\<exists>i<length two_datasets. cds joint0 ! i \<le> 4 \<and>
      locate joint0 4 = Inr (Some (fst (two_datasets ! i)),
                             snd (two_datasets ! i) ! nat (4 - cds joint0 ! i),
                             txt_of (snd (two_datasets ! i) ! nat (4 - cds joint0 ! i)))) \<and>
   map (locate joint0) [0, 1, 2, 3, 4, 5, 6, 7] =
     [Inr (Some ''ds1'', ''a0'', ''a0.txt''), Inr (Some ''ds1'', ''a1'', ''a1.txt''),
      Inr (Some ''ds1'', ''a2'', ''a2.txt''), Inr (Some ''ds2'', ''b0'', ''b0.txt''),
      Inr (Some ''ds2'', ''b1'', ''b1.txt''), Inr (Some ''ds2'', ''b2'', ''b2.txt''),
      Inr (Some ''ds2'', ''b3'', ''b3.txt''), Inr (Some ''ds2'', ''b4'', ''b4.txt'')]"
proof -
  have d: "distinct (map fst two_datasets)" by (simp add: two_datasets_def)
  have n: "nF joint0 = 8"
    by (simp add: joint0_def JointDataset_init_def two_datasets_def Let_def split: prod.splits)
  have h: "4 < nF (JointDataset_init opts0 two_datasets txt_of (\<lambda>lp. []))"
    using n by (simp add: joint0_def)
  have l: "(0::int) \<le> 4" by simp
  have ex: "\<exists>i<length two_datasets. cds joint0 ! i \<le> 4 \<and>
      locate joint0 4 = Inr (Some (fst (two_datasets ! i)),
                             snd (two_datasets ! i) ! nat (4 - cds joint0 ! i),
                             txt_of (snd (two_datasets ! i) ! nat (4 - cds joint0 ! i)))"
    using locate_resolves [OF d l h] unfolding joint0_def by blast
  have all: "map (locate joint0) [0, 1, 2, 3, 4, 5, 6, 7] =
     [Inr (Some ''ds1'', ''a0'', ''a0.txt''), Inr (Some ''ds1'', ''a1'', ''a1.txt''),
      Inr (Some ''ds1'', ''a2'', ''a2.txt''), Inr (Some ''ds2'', ''b0'', ''b0.txt''),
      Inr (Some ''ds2'', ''b1'', ''b1.txt''), Inr (Some ''ds2'', ''b2'', ''b2.txt''),
      Inr (Some ''ds2'', ''b3'', ''b3.txt''), Inr (Some ''ds2'', ''b4'', ''b4.txt'')]"
    by (simp add: joint0_def JointDataset_init_def two_datasets_def Let_def locate_def py_get_def
        py_index_def dict_get_opt_def dict_get_def txt_of_def split: prod.splits)
  show ?thesis using d n ex all by simp
qed

section \<open>IdentitySpace\<close>





lemma update_new: "k \<notin> fst ` set al \<Longrightarrow> AList.update k v al = al @ [(k, v)]"
  by (induction al) auto

lemma count_identities_distinct:
  "distinct (map fst acc @ map fst lfs) \<Longrightarrow>
   count_identities loadtxt lfs acc =
     acc @ map (\<lambda>(ds, lps). (ds, max_identity loadtxt lps (- 1) + 1)) lfs"
proof (induction lfs arbitrary: acc)
  case Nil
  then show ?case by simp
next
  case (Cons p lfs)
  obtain ds lps where p: "p = (ds, lps)" by (cases p)
  have new: "ds \<notin> fst ` set acc" using Cons.prems p by auto
  have d: "distinct (map fst (acc @ [(ds, max_identity loadtxt lps (- 1) + 1)]) @ map fst lfs)"
    using Cons.prems p by auto
  show ?case
    using Cons.IH[OF d] by (simp add: p update_new[OF new])
qed

lemma assign_start_index_distinct:
  "distinct (map fst acc @ map fst tn) \<Longrightarrow>
   assign_start_index tn acc last_index =
     (acc @ map (\<lambda>i. (fst (tn ! i), last_index + sum_list (map snd (take i tn)))) [0..<length tn],
      last_index + sum_list (map snd tn))"
proof (induction tn arbitrary: acc last_index)
  case Nil
  then show ?case by simp
next
  case (Cons p tn)
  obtain k v where p: "p = (k, v)" by (cases p)
  have new: "k \<notin> fst ` set acc" using Cons.prems p by auto
  have d: "distinct (map fst (acc @ [(k, last_index)]) @ map fst tn)"
    using Cons.prems p by auto
  show ?case
    using Cons.IH[OF d]
    by (simp add: p update_new[OF new] map_upt_Suc add.assoc del: upt_Suc)
qed

lemma offset_ids_map:
  "map_of tsi ds = Some start \<Longrightarrow>
   offset_ids tsi (Some ds) ls =
     Inr (map (\<lambda>l. if lid l > - 1 then l\<lparr>lid := lid l + start\<rparr> else l) ls)"
  by (induction ls) (auto simp: dict_get_opt_def dict_get_def)



lemma init_tid_num:
  assumes "distinct (map fst files)"
  shows "tid_num (JointDataset_init op files label_of loadtxt) =
           map (\<lambda>p. (fst p, max_identity loadtxt (map label_of (snd p)) (- 1) + 1)) files"
proof -
  have d: "distinct (map fst [] @ map fst (map (\<lambda>(ds, xs). (ds, map label_of xs)) files))"
    using assms by (simp add: comp_def case_prod_beta)
  show ?thesis
    by (simp add: JointDataset_init_def Let_def count_identities_distinct[OF d]
        case_prod_beta comp_def split: prod.splits)
qed

lemma init_tid_start:
  assumes "distinct (map fst files)"
  shows "tid_start_index (JointDataset_init op files label_of loadtxt) =
           map (\<lambda>i. (fst (files ! i),
                      sum_list (map snd (take i (tid_num (JointDataset_init op files label_of loadtxt))))))
               [0..<length files]
         \<and> nID (JointDataset_init op files label_of loadtxt) =
             sum_list (map snd (tid_num (JointDataset_init op files label_of loadtxt))) + 1"
proof -
  define tn where "tn = tid_num (JointDataset_init op files label_of loadtxt)"
  have tn_eq: "tn = map (\<lambda>p. (fst p, max_identity loadtxt (map label_of (snd p)) (- 1) + 1)) files"
    unfolding tn_def by (rule init_tid_num[OF assms])
  have keys: "map fst tn = map fst files" by (simp add: tn_eq comp_def)
  have len: "length tn = length files" by (simp add: tn_eq)
  have d: "distinct (map fst [] @ map fst tn)" using assms keys by simp
  have tn_alt: "tn = count_identities loadtxt (map (\<lambda>(ds, xs). (ds, map label_of xs)) files) []"
    unfolding tn_def by (simp add: JointDataset_init_def Let_def split: prod.splits)
  have fst_nth: "fst (tn ! i) = fst (files ! i)" if "i < length files" for i
    using that by (simp add: tn_eq)
  have m: "map (\<lambda>i. (fst (tn ! i), sum_list (map snd (take i tn)))) [0..<length files]
           = map (\<lambda>i. (fst (files ! i), sum_list (map snd (take i tn)))) [0..<length files]"
    by (rule map_cong) (auto simp: fst_nth)
  have a: "assign_start_index tn [] 0 =
             (map (\<lambda>i. (fst (files ! i), sum_list (map snd (take i tn)))) [0..<length files],
              sum_list (map snd tn))"
    using assign_start_index_distinct[OF d, of 0] m by (simp add: len)
  show ?thesis
    unfolding tn_def[symmetric]
    using a by (simp add: JointDataset_init_def Let_def tn_alt[symmetric] split: prod.splits)
qed



section \<open>letterbox\<close>










section \<open>Supervised fetches\<close>

lemma get_data_supervised:
  "get_data E img_path label_path False =
     (case imread E img_path of
        None \<Rightarrow> Inl (ValueError (''File corrupt '' @ img_path))
      | Some raw \<Rightarrow>
          (case view_body E ''orig'' False raw label_path of
             Inl e \<Rightarrow> Inl e
           | Inr (im, lb) \<Rightarrow>
               Inr ([(''orig'', Some im), (''flipped'', None)],
                    [(''orig'', Some lb), (''flipped'', None)], img_path, raw_shape E raw)))"
  by (simp add: get_data_def Let_def split: option.splits sum.splits prod.splits)

lemma encode_sample_no_flipped_labels:
  "encode_sample E jd im labels flipped_img None =
     ([], Inl (if opt_down_ratio (opt jd) = 0 then ZeroDivisionError else AttributeError))"
  by (simp add: encode_sample_def Let_def)

lemma getitem_supervised:
  "getitem E jd files_index =
     (case locate jd files_index of
        Inl e \<Rightarrow> ([], Inl e)
      | Inr (ds, img_path, label_path) \<Rightarrow>
          (case imread E img_path of
             None \<Rightarrow> ([], Inl (ValueError (''File corrupt '' @ img_path)))
           | Some raw \<Rightarrow>
               (case view_body E ''orig'' False raw label_path of
                  Inl e \<Rightarrow> ([], Inl e)
                | Inr (im, lb) \<Rightarrow>
                    (case offset_ids (tid_start_index jd) ds lb of
                       Inl e \<Rightarrow> ([], Inl e)
                     | Inr labels \<Rightarrow>
                         ([], Inl (if opt_down_ratio (opt jd) = 0 then ZeroDivisionError
                                   else AttributeError))))))"
  if us: "\<not> unsup jd"
proof (cases "locate jd files_index")
  case (Inl e)
  then show ?thesis by (simp add: getitem_def)
next
  case (Inr t)
  obtain ds img_path label_path where t: "t = (ds, img_path, label_path)" by (cases t)
  note loc = Inr[unfolded t]
  show ?thesis
  proof (cases "imread E img_path")
    case None
    then show ?thesis using us loc by (simp add: getitem_def get_data_supervised)
  next
    case (Some raw)
    note rd = this
    show ?thesis
    proof (cases "view_body E ''orig'' False raw label_path")
      case (Inl e)
      then show ?thesis using us loc rd by (simp add: getitem_def get_data_supervised)
    next
      case (Inr v)
      obtain im lb where v: "v = (im, lb)" by (cases v)
      note vb = Inr[unfolded v]
      show ?thesis
      proof (cases "offset_ids (tid_start_index jd) ds lb")
        case (Inl e)
        then show ?thesis
          using us loc rd vb by (simp add: getitem_def get_data_supervised dict_get_def)
      next
        case (Inr labels)
        then show ?thesis
          using us loc rd vb
          by (simp add: getitem_def get_data_supervised dict_get_def
              encode_sample_no_flipped_labels)
      qed
    qed
  qed
qed

text \<open>
  C10: with self-supervision disabled, \<^verbatim>\<open>get_data\<close> returns \<^verbatim>\<open>None\<close> for the flipped image and the
  flipped labels; no fetch through \<^verbatim>\<open>__getitem__\<close> returns a target bundle; and a fetch whose
  sample is located, decoded, processed and remapped without error, with a non-zero down ratio,
  ends in the AttributeError of \<^verbatim>\<open>flipped_labels.shape\<close> on line 474.
\<close>

theorem supervised_fetch_dereferences_none:
  assumes "\<not> unsup jd"
  shows "(\<forall>ip lp imgs lbls p hw.
            get_data E ip lp (unsup jd) = Inr (imgs, lbls, p, hw) \<longrightarrow>
              dict_get imgs ''flipped'' = Inr None \<and> dict_get lbls ''flipped'' = Inr None)
       \<and> (\<exists>e. getitem E jd files_index = ([], Inl e))
       \<and> (\<forall>ds ip lp raw im lb labels.
            locate jd files_index = Inr (ds, ip, lp) \<and> imread E ip = Some raw \<and>
            view_body E ''orig'' False raw lp = Inr (im, lb) \<and>
            offset_ids (tid_start_index jd) ds lb = Inr labels \<and>
            opt_down_ratio (opt jd) \<noteq> 0 \<longrightarrow>
              getitem E jd files_index = ([], Inl AttributeError))"
proof -
  have a: "dict_get imgs ''flipped'' = Inr None \<and> dict_get lbls ''flipped'' = Inr None"
    if "get_data E ip lp (unsup jd) = Inr (imgs, lbls, p, hw)" for ip lp imgs lbls p hw
    using that assms
    by (auto simp: get_data_supervised dict_get_def split: option.splits sum.splits prod.splits)
  have b: "\<exists>e. getitem E jd files_index = ([], Inl e)"
    by (simp add: getitem_supervised[OF assms] split: sum.splits option.splits prod.splits)
  have c: "getitem E jd files_index = ([], Inl AttributeError)"
    if "locate jd files_index = Inr (ds, ip, lp)" "imread E ip = Some raw"
      "view_body E ''orig'' False raw lp = Inr (im, lb)"
      "offset_ids (tid_start_index jd) ds lb = Inr labels"
      "opt_down_ratio (opt jd) \<noteq> 0" for ds ip lp raw im lb labels
    using that by (simp add: getitem_supervised[OF assms])
  show ?thesis using a b c by blast
qed

text \<open>The theorem at the first sample of the two sample datasets, in supervised mode.\<close>

theorem supervised_fetch_dereferences_none_witness:
  "\<not> unsup joint_sup \<and> locate joint_sup 0 = Inr (Some ''ds1'', ''a0'', ''a0.txt'') \<and>
   getitem ext0 joint_sup 0 = ([], Inl AttributeError)"
proof -
  have u: "\<not> unsup joint_sup"
    by (simp add: joint_sup_def JointDataset_init_def Let_def opts0_def split: prod.splits)
  have loc: "locate joint_sup 0 = Inr (Some ''ds1'', ''a0'', ''a0.txt'')"
    by (simp add: joint_sup_def JointDataset_init_def two_datasets_def Let_def locate_def
        py_get_def py_index_def dict_get_opt_def dict_get_def txt_of_def split: prod.splits)
  have rd: "imread ext0 ''a0'' = Some ()" by (simp add: ext0_def)
  have vb: "view_body ext0 ''orig'' False () ''a0.txt'' = Inr ((3, 608, 1088), sample_labels ''a0.txt'')"
    by (simp add: ext0_def)
  have d: "distinct (map fst two_datasets)" by (simp add: two_datasets_def)
  have ts: "map_of (tid_start_index joint_sup) ''ds1'' = Some 0"
    unfolding joint_sup_def using init_tid_start[OF d, of "opts0\<lparr>opt_unsup := False\<rparr>" txt_of sample_labels]
    by (simp add: two_datasets_def)
  have off: "offset_ids (tid_start_index joint_sup) (Some ''ds1'') (sample_labels ''a0.txt'')
               = Inr (sample_labels ''a0.txt'')"
    unfolding offset_ids_map[OF ts] by (simp add: sample_labels_def row_def)
  have dr: "opt_down_ratio (opt joint_sup) \<noteq> 0"
    by (simp add: joint_sup_def JointDataset_init_def Let_def opts0_def split: prod.splits)
  have "getitem ext0 joint_sup 0 = ([], Inl AttributeError)"
    using supervised_fetch_dereferences_none [OF u, of ext0 0] loc rd vb off dr by blast
  then show ?thesis using u loc by simp
qed

section \<open>GroundTruthEncoder\<close>

lemma py_set_error: "py_set xs k v = Inl e \<Longrightarrow> e = IndexError"
  by (simp add: py_set_def split: if_splits)

lemma py_set_length: "py_set xs k v = Inr ys \<Longrightarrow> length ys = length xs"
  by (auto simp: py_set_def split: if_splits)

lemma py_get_error: "py_get xs i = Inl e \<Longrightarrow> e = IndexError"
  by (simp add: py_get_def split: option.splits)

lemma encode_one_error:
  "encode_one E op output_h output_w labels k g = Inl e \<Longrightarrow> e = IndexError"
  by (auto simp: encode_one_def Let_def
      split: sum.splits prod.splits if_splits option.splits
      dest: py_set_error py_get_error)

lemma encode_one_length_wh:
  "encode_one E op output_h output_w labels k g = Inr g' \<Longrightarrow> length (wh g') = length (wh g)"
  by (auto simp: encode_one_def Let_def
      split: sum.splits prod.splits if_splits option.splits
      dest: py_set_length)

lemma encode_one_beyond_capacity:
  assumes "k < length labels" and "length (wh g) \<le> k"
    and "0 < l5 (labels ! k) * of_int output_h" and "0 < l4 (labels ! k) * of_int output_w"
  shows "encode_one E op output_h output_w labels k g = Inl IndexError"
  using assms
  by (simp add: encode_one_def py_get_nat grid_bbox_def Let_def py_set_def split: option.splits)

lemma encode_objs_beyond_capacity:
  assumes "k \<in> set ks" and "k < length labels" and "length (wh g) \<le> k"
    and "0 < l5 (labels ! k) * of_int output_h" and "0 < l4 (labels ! k) * of_int output_w"
  shows "encode_objs E op output_h output_w labels ks g = Inl IndexError"
  using assms(1,3)
proof (induction ks arbitrary: g)
  case Nil
  then show ?case by simp
next
  case (Cons j ks)
  show ?case
  proof (cases "encode_one E op output_h output_w labels j g")
    case (Inl e)
    then show ?thesis using encode_one_error[OF Inl] by simp
  next
    case (Inr g')
    have len: "length (wh g') \<le> k"
      using encode_one_length_wh[OF Inr] Cons.prems(2) by simp
    have "k \<noteq> j"
    proof
      assume "k = j"
      then have "encode_one E op output_h output_w labels j g = Inl IndexError"
        using encode_one_beyond_capacity[OF assms(2) Cons.prems(2) assms(4,5)] by simp
      with Inr show False by simp
    qed
    then have "k \<in> set ks" using Cons.prems(1) by simp
    from Cons.IH[OF this len] show ?thesis using Inr by simp
  qed
qed

text \<open>
  C1, as amended: \<^verbatim>\<open>__getitem__\<close> does not truncate at capacity. In a self-supervised fetch on a
  positive output grid, a label row of positive width and height at a position \<open>k\<close> at or beyond
  \<^verbatim>\<open>max_objs\<close> makes the encoding loop, which runs over all rows in order of appearance, raise
  IndexError (at \<^verbatim>\<open>wh[k] = ...\<close> or earlier), and no target bundle is returned.
\<close>

theorem encode_beyond_capacity_raises:
  assumes "max_objs jd \<le> k" and "k < length labels"
    and "0 < l4 (labels ! k)" and "0 < l5 (labels ! k)"
    and "0 < fst (snd (img_shape E im)) div opt_down_ratio (opt jd)"
    and "0 < snd (snd (img_shape E im)) div opt_down_ratio (opt jd)"
  shows "snd (encode_sample E jd im labels flipped_img (Some fl)) = Inl IndexError"
proof -
  define oh where "oh = fst (snd (img_shape E im)) div opt_down_ratio (opt jd)"
  define ow where "ow = snd (snd (img_shape E im)) div opt_down_ratio (opt jd)"
  have dr: "opt_down_ratio (opt jd) \<noteq> 0" using assms(5) by auto
  have oh: "0 < oh" and ow: "0 < ow" using assms(5,6) unfolding oh_def ow_def by simp_all
  have ph: "0 < l5 (labels ! k) * of_int oh" using assms(4) oh by simp
  have pw: "0 < l4 (labels ! k) * of_int ow" using assms(3) ow by simp
  have mem: "k \<in> set [0..<length labels]" using assms(2) by simp
  have cap: "length (wh (gt_zeros E (max_objs jd) oh ow)) \<le> k"
    using assms(1) by (simp add: gt_zeros_def)
  have "encode_objs E (opt jd) oh ow labels [0..<length labels] (gt_zeros E (max_objs jd) oh ow)
          = Inl IndexError"
    by (rule encode_objs_beyond_capacity[OF mem assms(2) cap ph pw])
  then show ?thesis
    using dr oh ow by (simp add: encode_sample_def Let_def oh_def[symmetric] ow_def[symmetric])
qed

text \<open>
  The theorem at the first sample with a capacity of one: its second row, at position 1, has a
  positive extent.
\<close>

theorem encode_beyond_capacity_raises_witness:
  "max_objs joint_k1 \<le> 1 \<and> 1 < length (sample_labels ''a0.txt'') \<and>
   0 < l4 (sample_labels ''a0.txt'' ! 1) \<and> 0 < l5 (sample_labels ''a0.txt'' ! 1) \<and>
   snd (encode_sample ext0 joint_k1 (3, 608, 1088) (sample_labels ''a0.txt'')
          (Some (3, 608, 1088)) (Some (sample_labels ''a0.txt''))) = Inl IndexError"
proof -
  have a: "max_objs joint_k1 \<le> 1"
    by (simp add: joint_k1_def JointDataset_init_def Let_def opts0_def split: prod.splits)
  have b: "1 < length (sample_labels ''a0.txt'')" by (simp add: sample_labels_def)
  have c: "0 < l4 (sample_labels ''a0.txt'' ! 1)" and d: "0 < l5 (sample_labels ''a0.txt'' ! 1)"
    by (simp_all add: sample_labels_def row_def)
  have o: "opt joint_k1 = opts0\<lparr>opt_K := 1\<rparr>"
    by (simp add: joint_k1_def JointDataset_init_def Let_def split: prod.splits)
  have e: "0 < fst (snd (img_shape ext0 (3, 608, 1088))) div opt_down_ratio (opt joint_k1)"
    and f: "0 < snd (snd (img_shape ext0 (3, 608, 1088))) div opt_down_ratio (opt joint_k1)"
    by (simp_all add: o ext0_def opts0_def)
  show ?thesis
    using encode_beyond_capacity_raises [OF a b c d e f] a b c d by simp
qed

text \<open>
  C1 as stated fails: with a capacity of one, the fetch of the first sample, whose label file has
  two rows, raises IndexError instead of returning the first object.
\<close>

theorem getitem_truncates_counterexample:
  "max_objs joint_k1 = 1 \<and> length (sample_labels ''a0.txt'') = 2 \<and>
   getitem ext0 joint_k1 0 = ([], Inl IndexError)"
  by (simp add: getitem_def joint_k1_def JointDataset_init_def two_datasets_def Let_def locate_def
        py_get_def py_index_def dict_get_opt_def dict_get_def txt_of_def get_data_def ext0_def opts0_def
        sample_labels_def row_def encode_sample_def gt_zeros_def encode_one_def grid_bbox_def np_clip_def
        py_set_def py_int_def
        split: prod.splits)


lemma flipped_one_error:
  "flipped_one output_h output_w fl k fnd = Inl e \<Longrightarrow> e = IndexError"
  by (auto simp: flipped_one_def Let_def split: sum.splits prod.splits if_splits
      dest: py_set_error py_get_error)

lemma flipped_one_short:
  "length fl \<le> k \<Longrightarrow> flipped_one output_h output_w fl k fnd = Inl IndexError"
  by (simp add: flipped_one_def py_get_def py_index_def)

lemma flipped_objs_short:
  assumes "k \<in> set ks" and "length fl \<le> k"
  shows "flipped_objs output_h output_w fl ks fnd = Inl IndexError"
  using assms(1)
proof (induction ks arbitrary: fnd)
  case Nil
  then show ?case by simp
next
  case (Cons j ks)
  show ?case
  proof (cases "flipped_one output_h output_w fl j fnd")
    case (Inl e)
    then show ?thesis using flipped_one_error[OF Inl] by simp
  next
    case (Inr f')
    have "k \<noteq> j" using Inr flipped_one_short[OF assms(2), of output_h output_w fnd] by auto
    then have "k \<in> set ks" using Cons.prems by simp
    from Cons.IH[OF this] show ?thesis using Inr by simp
  qed
qed

text \<open>
  C4, what the code does: when the flipped label array has fewer rows than the original one, line
  475 prints the two counts and the fetch goes on; if the encoding of the original rows succeeds,
  the loop over the flipped labels indexes \<^verbatim>\<open>flipped_labels[k]\<close> for every \<open>k\<close> below the original
  count, which is out of range from the length of the flipped array on, and the fetch ends in
  IndexError.
\<close>

theorem flipped_mismatch_index_error:
  assumes "length fl < length labels"
    and "opt_down_ratio (opt jd) \<noteq> 0"
    and "0 \<le> fst (snd (img_shape E im)) div opt_down_ratio (opt jd)"
    and "0 \<le> snd (snd (img_shape E im)) div opt_down_ratio (opt jd)"
    and "\<not> isl (encode_objs E (opt jd)
                  (fst (snd (img_shape E im)) div opt_down_ratio (opt jd))
                  (snd (snd (img_shape E im)) div opt_down_ratio (opt jd))
                  labels [0..<length labels]
                  (gt_zeros E (max_objs jd)
                     (fst (snd (img_shape E im)) div opt_down_ratio (opt jd))
                     (snd (snd (img_shape E im)) div opt_down_ratio (opt jd))))"
  shows "encode_sample E jd im labels (Some fi) (Some fl) =
           ([(length labels, length fl)], Inl IndexError)
       \<and> py_get fl (int (length fl)) = Inl IndexError
       \<and> flipped_objs (fst (snd (img_shape E im)) div opt_down_ratio (opt jd))
            (snd (snd (img_shape E im)) div opt_down_ratio (opt jd))
            fl [0..<length labels] (replicate (max_objs jd) 0) = Inl IndexError"
proof -
  define oh where "oh = fst (snd (img_shape E im)) div opt_down_ratio (opt jd)"
  define ow where "ow = snd (snd (img_shape E im)) div opt_down_ratio (opt jd)"
  obtain g where g: "encode_objs E (opt jd) oh ow labels [0..<length labels]
                       (gt_zeros E (max_objs jd) oh ow) = Inr g"
    using assms(5) unfolding oh_def ow_def
    by (cases "encode_objs E (opt jd)
                  (fst (snd (img_shape E im)) div opt_down_ratio (opt jd))
                  (snd (snd (img_shape E im)) div opt_down_ratio (opt jd))
                  labels [0..<length labels]
                  (gt_zeros E (max_objs jd)
                     (fst (snd (img_shape E im)) div opt_down_ratio (opt jd))
                     (snd (snd (img_shape E im)) div opt_down_ratio (opt jd)))") auto
  have mem: "length fl \<in> set [0..<length labels]" using assms(1) by simp
  have fo: "flipped_objs oh ow fl [0..<length labels] (replicate (max_objs jd) 0) = Inl IndexError"
    by (rule flipped_objs_short[OF mem]) simp
  have pg: "py_get fl (int (length fl)) = Inl IndexError"
    by (simp add: py_get_def py_index_def)
  have "encode_sample E jd im labels (Some fi) (Some fl) =
           ([(length labels, length fl)], Inl IndexError)"
    using assms(1,2,3,4) g fo
    by (simp add: encode_sample_def Let_def oh_def[symmetric] ow_def[symmetric])
  then show ?thesis using pg fo unfolding oh_def ow_def by simp
qed

text \<open>
  The theorem at the first sample when the flipped view keeps one of its two rows: the fetch
  prints \<open>2 1\<close> and raises IndexError.
\<close>

theorem flipped_mismatch_index_error_witness:
  "length (take 1 (sample_labels ''a0.txt'')) < length (sample_labels ''a0.txt'') \<and>
   encode_sample ext1 joint1 (3, 608, 1088) (sample_labels ''a0.txt'') (Some (3, 608, 1088))
       (Some (take 1 (sample_labels ''a0.txt''))) = ([(2, 1)], Inl IndexError) \<and>
   getitem ext1 joint1 0 = ([(2, 1)], Inl IndexError)"
proof -
  have o: "opt joint1 = opts0" "max_objs joint1 = 128"
    by (simp_all add: joint1_def JointDataset_init_def Let_def opts0_def split: prod.splits)
  have a: "length (take 1 (sample_labels ''a0.txt'')) < length (sample_labels ''a0.txt'')"
    by (simp add: sample_labels_def)
  have b: "opt_down_ratio (opt joint1) \<noteq> 0" by (simp add: o opts0_def)
  have c: "0 \<le> fst (snd (img_shape ext1 (3, 608, 1088))) div opt_down_ratio (opt joint1)"
    and d: "0 \<le> snd (snd (img_shape ext1 (3, 608, 1088))) div opt_down_ratio (opt joint1)"
    by (simp_all add: o ext1_def ext0_def opts0_def)
  have e: "\<not> isl (encode_objs ext1 (opt joint1)
                  (fst (snd (img_shape ext1 (3, 608, 1088))) div opt_down_ratio (opt joint1))
                  (snd (snd (img_shape ext1 (3, 608, 1088))) div opt_down_ratio (opt joint1))
                  (sample_labels ''a0.txt'') [0..<length (sample_labels ''a0.txt'')]
                  (gt_zeros ext1 (max_objs joint1)
                     (fst (snd (img_shape ext1 (3, 608, 1088))) div opt_down_ratio (opt joint1))
                     (snd (snd (img_shape ext1 (3, 608, 1088))) div opt_down_ratio (opt joint1))))"
    by (simp add: o ext1_def ext0_def opts0_def sample_labels_def row_def gt_zeros_def
        encode_one_def grid_bbox_def np_clip_def py_set_def py_int_def py_get_def py_index_def Let_def)
  have f: "length (sample_labels ''a0.txt'') = 2" "length (take 1 (sample_labels ''a0.txt'')) = 1"
    by (simp_all add: sample_labels_def)
  have g: "getitem ext1 joint1 0 = ([(2, 1)], Inl IndexError)"
    by (simp add: getitem_def joint1_def JointDataset_init_def two_datasets_def Let_def locate_def
        py_get_def py_index_def dict_get_opt_def dict_get_def txt_of_def get_data_def ext0_def ext1_def
        opts0_def sample_labels_def row_def encode_sample_def gt_zeros_def encode_one_def
        grid_bbox_def np_clip_def py_set_def py_int_def flipped_one_def
        split: prod.splits)
  show ?thesis
    using flipped_mismatch_index_error [OF a b c d e, of "(3, 608, 1088)"] a g unfolding f by simp
qed

section \<open>MotLoss\<close>

lemma combine_total:
  assumes "combine ml lr0 = Inr (total_loss, lr)"
  shows "\<exists>l_hm l_wh l_off l_id.
           lr = lr0(''loss'' \<mapsto> total_loss) \<and>
           lr0 ''hm'' = Some l_hm \<and> lr0 ''wh'' = Some l_wh \<and> lr0 ''off'' = Some l_off \<and>
           lr0 (if \<not> opt_unsup (ml_opt ml) then ''id'' else opt_unsup_loss (ml_opt ml)) = Some l_id \<and>
           total_loss =
             0.5 * (exp (- s_det ml) *
                      (opt_hm_weight (ml_opt ml) * l_hm + opt_wh_weight (ml_opt ml) * l_wh
                       + opt_off_weight (ml_opt ml) * l_off)
                    + exp (- s_id ml) * (exp (- s_id ml) * l_id) + s_det ml + s_id ml)"
proof -
  obtain l_hm where hm: "lr0 ''hm'' = Some l_hm"
    using assms by (cases "lr0 ''hm''") (simp_all add: combine_def dict_read_def Let_def)
  obtain l_wh where wh: "lr0 ''wh'' = Some l_wh"
    using assms hm by (cases "lr0 ''wh''") (simp_all add: combine_def dict_read_def Let_def)
  obtain l_off where off: "lr0 ''off'' = Some l_off"
    using assms hm wh by (cases "lr0 ''off''") (simp_all add: combine_def dict_read_def Let_def)
  define key where "key = (if \<not> opt_unsup (ml_opt ml) then ''id'' else opt_unsup_loss (ml_opt ml))"
  obtain l_id where idl: "lr0 key = Some l_id"
    using assms hm wh off unfolding key_def
    by (cases "lr0 (if \<not> opt_unsup (ml_opt ml) then ''id'' else opt_unsup_loss (ml_opt ml))")
       (simp_all add: combine_def dict_read_def Let_def)
  define T where
    "T = 0.5 * (exp (- s_det ml) *
                      (opt_hm_weight (ml_opt ml) * l_hm + opt_wh_weight (ml_opt ml) * l_wh
                       + opt_off_weight (ml_opt ml) * l_off)
                    + exp (- s_id ml) * (exp (- s_id ml) * l_id) + s_det ml + s_id ml)"
  have c: "combine ml lr0 = Inr (T, lr0(''loss'' \<mapsto> T))"
    using hm wh off idl[unfolded key_def]
    by (simp add: combine_def dict_read_def Let_def T_def)
  have "Inr (T, lr0(''loss'' \<mapsto> T)) = (Inr (total_loss, lr) :: error + _)"
    using c[symmetric] assms by (rule trans)
  then have "(T, lr0(''loss'' \<mapsto> T)) = (total_loss, lr)"
    by (rule sum.inject(2)[THEN iffD1])
  then have e: "T = total_loss \<and> lr0(''loss'' \<mapsto> T) = lr"
    by (rule prod.inject[THEN iffD1])
  have t': "total_loss = T" by (rule e[THEN conjunct1, symmetric])
  have l': "lr = lr0(''loss'' \<mapsto> T)" by (rule e[THEN conjunct2, symmetric])
  have t: "total_loss = 0.5 * (exp (- s_det ml) *
                      (opt_hm_weight (ml_opt ml) * l_hm + opt_wh_weight (ml_opt ml) * l_wh
                       + opt_off_weight (ml_opt ml) * l_off)
                    + exp (- s_id ml) * (exp (- s_id ml) * l_id) + s_det ml + s_id ml)"
    using t' unfolding T_def .
  have l: "lr = lr0(''loss'' \<mapsto> total_loss)" unfolding t' by (rule l')
  show ?thesis using hm wh off idl[unfolded key_def] t l by blast
qed

text \<open>
  C2, what the code computes: whenever \<^verbatim>\<open>forward\<close> returns, the scalar is
  \<open>0.5 * (exp (- s_det) * det_loss + exp (- s_id) * (exp (- s_id) * l_id) + s_det + s_id)\<close>, where
  \<open>det_loss\<close> is the weighted sum of the accumulated heatmap, size and offset terms and \<open>l_id\<close> the
  accumulated identity (or self-supervised) term: the identity term carries the factor
  \<open>exp (- s_id)\<close> twice, once on line 119 and once more on line 124.
\<close>

theorem forward_total_loss:
  assumes "forward C ml output_dict = Inr (total_loss, lr)"
  shows "\<exists>lr0 l_hm l_wh l_off l_id.
           lr = lr0(''loss'' \<mapsto> total_loss) \<and>
           lr0 ''hm'' = Some l_hm \<and> lr0 ''wh'' = Some l_wh \<and> lr0 ''off'' = Some l_off \<and>
           lr0 (if \<not> opt_unsup (ml_opt ml) then ''id'' else opt_unsup_loss (ml_opt ml)) = Some l_id \<and>
           total_loss =
             0.5 * (exp (- s_det ml) *
                      (opt_hm_weight (ml_opt ml) * l_hm + opt_wh_weight (ml_opt ml) * l_wh
                       + opt_off_weight (ml_opt ml) * l_off)
                    + exp (- s_id ml) * (exp (- s_id ml) * l_id) + s_det ml + s_id ml)"
proof -
  obtain outputs where o: "dict_get output_dict ''orig'' = Inr outputs"
    using assms by (cases "dict_get output_dict ''orig''") (simp_all add: forward_def Let_def)
  obtain lr0 where
    st: "forward_stages C ml outputs (map_of output_dict ''flipped'')
           [0..<nat (opt_num_stacks (ml_opt ml))] (init_results (loss_states ml)) = Inr lr0"
    using assms o
    by (cases "forward_stages C ml outputs (map_of output_dict ''flipped'')
           [0..<nat (opt_num_stacks (ml_opt ml))] (init_results (loss_states ml))")
       (simp_all add: forward_def Let_def)
  have "combine ml lr0 = Inr (total_loss, lr)"
    using assms o st by (simp add: forward_def Let_def)
  from combine_total[OF this] show ?thesis by blast
qed


text \<open>
  The theorem at the freshly constructed supervised module (\<open>s_det = -1.85\<close>, \<open>s_id = -1.05\<close>), one
  stage and all loss values 1: the total holds \<open>exp 1.05 * exp 1.05\<close> times the identity loss, and
  differs from the value of the formula with a single factor.
\<close>

theorem forward_total_loss_witness:
  "map_sum id fst (forward crit0 loss_sup [(''orig'', [1])]) =
     Inr (0.5 * (exp 1.85 * (1 * 1 + 0.1 * 1 + 1 * 1) + exp 1.05 * (exp 1.05 * 1) + - 1.85 + - 1.05)) \<and>
   0.5 * (exp 1.85 * (1 * 1 + 0.1 * 1 + 1 * 1) + exp 1.05 * (exp 1.05 * 1) + - 1.85 + - 1.05)
     \<noteq> (0.5 * (exp 1.85 * (1 * 1 + 0.1 * 1 + 1 * 1) + exp 1.05 * 1 + - 1.85 + - 1.05) :: real)"
proof -
  have ml: "MotLoss_init (opts0\<lparr>opt_unsup := False\<rparr>) states_sup = Inr loss_sup"
    by (simp add: loss_sup_def MotLoss_init_def opts0_def Let_def)
  have par: "s_det loss_sup = - 1.85" "s_id loss_sup = - 1.05"
    "ml_opt loss_sup = opts0\<lparr>opt_unsup := False\<rparr>"
    by (simp_all add: loss_sup_def MotLoss_init_def opts0_def Let_def)
  have ev: "results_at [''hm'', ''wh'', ''off'', ''id''] (forward crit0 loss_sup [(''orig'', [1])])
              = Inr [Some 1, Some 1, Some 1, Some 1]"
    by (simp add: results_at_def loss_sup_def MotLoss_init_def opts0_def states_sup_def forward_def
        dict_get_def init_results_def stage_hm_wh_def stage_off_def stage_id_def crit0_def
        dict_add_def call_module_def py_get_def py_index_def combine_def dict_read_def Let_def
        split: sum.splits)
  obtain t lr where f: "forward crit0 loss_sup [(''orig'', [1])] = Inr (t, lr)"
    using ev by (cases "forward crit0 loss_sup [(''orig'', [1])]") (auto simp: results_at_def)
  have vals: "lr ''hm'' = Some 1" "lr ''wh'' = Some 1" "lr ''off'' = Some 1" "lr ''id'' = Some 1"
    using ev unfolding f by (simp_all add: results_at_def)
  from forward_total_loss [OF f] obtain lr0 l_hm l_wh l_off l_id where
    l: "lr = lr0(''loss'' \<mapsto> t)"
    and h: "lr0 ''hm'' = Some l_hm" "lr0 ''wh'' = Some l_wh" "lr0 ''off'' = Some l_off"
    and i: "lr0 (if \<not> opt_unsup (ml_opt loss_sup) then ''id'' else opt_unsup_loss (ml_opt loss_sup))
              = Some l_id"
    and t: "t = 0.5 * (exp (- s_det loss_sup) *
                      (opt_hm_weight (ml_opt loss_sup) * l_hm + opt_wh_weight (ml_opt loss_sup) * l_wh
                       + opt_off_weight (ml_opt loss_sup) * l_off)
                    + exp (- s_id loss_sup) * (exp (- s_id loss_sup) * l_id)
                    + s_det loss_sup + s_id loss_sup)"
    by blast
  have i': "lr0 ''id'' = Some l_id" using i by (simp add: par opts0_def)
  have "l_hm = 1" "l_wh = 1" "l_off = 1" "l_id = 1"
    using vals h i' unfolding l by simp_all
  then have t': "t = 0.5 * (exp 1.85 * (1 * 1 + 0.1 * 1 + 1 * 1) + exp 1.05 * (exp 1.05 * 1)
                          + - 1.85 + - 1.05)"
    using t by (simp add: par opts0_def)
  have "(1::real) < exp 1.05" by simp
  then have "exp 1.05 * 1 < exp 1.05 * (exp 1.05 * (1::real))" by simp
  then have ne: "0.5 * (exp 1.85 * (1 * 1 + 0.1 * 1 + 1 * 1) + exp 1.05 * (exp 1.05 * 1) + - 1.85 + - 1.05)
     \<noteq> (0.5 * (exp 1.85 * (1 * 1 + 0.1 * 1 + 1 * 1) + exp 1.05 * 1 + - 1.85 + - 1.05) :: real)"
    by simp
  have "map_sum id fst (forward crit0 loss_sup [(''orig'', [1])]) = Inr t"
    unfolding f by simp
  then show ?thesis using ne unfolding t' by blast
qed

text \<open>
  C3, what the code does with two stages whose loss values are 1 and 3 (5 and 7 for the flipped
  stages): the heatmap, size and offset entries are the stage averages 2, but the supervised
  identity entry is the undivided sum 4 (line 100 has no division by the stage count) and the
  self-supervised entry is 7, the value of the last stage alone (line 112 assigns).
\<close>

theorem forward_stage_accumulation:
  "results_at [''hm'', ''wh'', ''off'', ''id'']
     (init_forward crit0 (opts0\<lparr>opt_unsup := False, opt_num_stacks := 2\<rparr>) states_sup
        [(''orig'', [1, 3])]) = Inr [Some 2, Some 2, Some 2, Some 4] \<and>
   results_at [''hm'', ''wh'', ''off'', ''nt_xent'']
     (init_forward crit0 (opts0\<lparr>opt_num_stacks := 2\<rparr>) states_unsup
        [(''orig'', [1, 3]), (''flipped'', [5, 7])]) = Inr [Some 2, Some 2, Some 2, Some 7]"
  by (simp add: results_at_def init_forward_def MotLoss_init_def opts0_def states_sup_def
      states_unsup_def forward_def dict_get_def init_results_def stage_hm_wh_def stage_off_def
      stage_id_def crit0_def dict_add_def call_module_def py_get_def py_index_def combine_def
      dict_read_def Let_def upt_rec split: sum.splits)


text \<open>
  C9, as amended: construction raises ValueError at once when self-supervision is enabled with a
  loss name other than \<^verbatim>\<open>nt_xent\<close>, \<^verbatim>\<open>triplet_all\<close> and \<^verbatim>\<open>triplet_hard\<close>. A size-loss configuration
  that resolves to no regression criterion is not checked: with a supported self-supervised
  setting and at least two identities, construction succeeds and leaves \<^verbatim>\<open>crit_reg\<close> and
  \<^verbatim>\<open>crit_wh\<close> as \<^verbatim>\<open>None\<close>.
\<close>

theorem MotLoss_init_configuration_errors:
  "(opt_unsup op \<and> opt_unsup_loss op \<noteq> ''nt_xent'' \<and> opt_unsup_loss op \<noteq> ''triplet_all'' \<and>
    opt_unsup_loss op \<noteq> ''triplet_hard'' \<longrightarrow>
      MotLoss_init op states =
        Inl (ValueError (opt_unsup_loss op @ '' is not a supported self-supervised loss. ''
                          @ ''Choose nt_xent, triplet_all, or triplet_hard'')))
   \<and> (opt_reg_loss op \<noteq> ''l1'' \<and> opt_reg_loss op \<noteq> ''sl1'' \<and> \<not> opt_dense_wh op \<and>
      \<not> opt_norm_wh op \<and> \<not> opt_cat_spec_wh op \<and> 2 \<le> opt_nID op \<and>
      (opt_unsup_loss op = ''nt_xent'' \<or> opt_unsup_loss op = ''triplet_all'' \<or>
       opt_unsup_loss op = ''triplet_hard'' \<or> \<not> opt_unsup op) \<longrightarrow>
        \<not> isl (MotLoss_init op states) \<and>
        crit_reg (projr (MotLoss_init op states)) = None \<and>
        crit_wh (projr (MotLoss_init op states)) = None)"
  by (auto simp: MotLoss_init_def Let_def)

text \<open>
  The theorem at the self-supervised sample configuration with the loss name \<^verbatim>\<open>simclr\<close>, and at
  the supervised one with the regression loss \<^verbatim>\<open>l2\<close>.
\<close>

theorem MotLoss_init_configuration_errors_witness:
  "MotLoss_init (opts0\<lparr>opt_unsup_loss := ''simclr''\<rparr>) states_unsup =
     Inl (ValueError ''simclr is not a supported self-supervised loss. Choose nt_xent, triplet_all, or triplet_hard'')
   \<and> \<not> isl (MotLoss_init (opts0\<lparr>opt_unsup := False, opt_reg_loss := ''l2''\<rparr>) states_sup)
   \<and> crit_wh (projr (MotLoss_init (opts0\<lparr>opt_unsup := False, opt_reg_loss := ''l2''\<rparr>) states_sup)) = None"
proof -
  have a: "opt_unsup (opts0\<lparr>opt_unsup_loss := ''simclr''\<rparr>) \<and>
           opt_unsup_loss (opts0\<lparr>opt_unsup_loss := ''simclr''\<rparr>) \<noteq> ''nt_xent'' \<and>
           opt_unsup_loss (opts0\<lparr>opt_unsup_loss := ''simclr''\<rparr>) \<noteq> ''triplet_all'' \<and>
           opt_unsup_loss (opts0\<lparr>opt_unsup_loss := ''simclr''\<rparr>) \<noteq> ''triplet_hard''"
    by (simp add: opts0_def)
  have b: "opt_reg_loss (opts0\<lparr>opt_unsup := False, opt_reg_loss := ''l2''\<rparr>) \<noteq> ''l1'' \<and>
           opt_reg_loss (opts0\<lparr>opt_unsup := False, opt_reg_loss := ''l2''\<rparr>) \<noteq> ''sl1'' \<and>
           \<not> opt_dense_wh (opts0\<lparr>opt_unsup := False, opt_reg_loss := ''l2''\<rparr>) \<and>
           \<not> opt_norm_wh (opts0\<lparr>opt_unsup := False, opt_reg_loss := ''l2''\<rparr>) \<and>
           \<not> opt_cat_spec_wh (opts0\<lparr>opt_unsup := False, opt_reg_loss := ''l2''\<rparr>) \<and>
           2 \<le> opt_nID (opts0\<lparr>opt_unsup := False, opt_reg_loss := ''l2''\<rparr>) \<and>
           (opt_unsup_loss (opts0\<lparr>opt_unsup := False, opt_reg_loss := ''l2''\<rparr>) = ''nt_xent'' \<or>
            opt_unsup_loss (opts0\<lparr>opt_unsup := False, opt_reg_loss := ''l2''\<rparr>) = ''triplet_all'' \<or>
            opt_unsup_loss (opts0\<lparr>opt_unsup := False, opt_reg_loss := ''l2''\<rparr>) = ''triplet_hard'' \<or>
            \<not> opt_unsup (opts0\<lparr>opt_unsup := False, opt_reg_loss := ''l2''\<rparr>))"
    by (simp add: opts0_def)
  have c: "opt_unsup_loss (opts0\<lparr>opt_unsup_loss := ''simclr''\<rparr>) = ''simclr''" by simp
  show ?thesis
    using MotLoss_init_configuration_errors [of "opts0\<lparr>opt_unsup_loss := ''simclr''\<rparr>" states_unsup] a
      MotLoss_init_configuration_errors
        [of "opts0\<lparr>opt_unsup := False, opt_reg_loss := ''l2''\<rparr>" states_sup] b
    unfolding c by simp
qed

text \<open>
  C9 as stated fails: with the unsupported regression loss \<^verbatim>\<open>l2\<close> and no other size-loss option,
  construction returns a module whose size and offset criteria are \<^verbatim>\<open>None\<close>, and the error, a
  TypeError, comes only with the first forward pass.
\<close>

theorem MotLoss_init_size_loss_counterexample:
  "\<not> isl (MotLoss_init (opts0\<lparr>opt_unsup := False, opt_reg_loss := ''l2''\<rparr>) states_sup) \<and>
   crit_reg (projr (MotLoss_init (opts0\<lparr>opt_unsup := False, opt_reg_loss := ''l2''\<rparr>) states_sup)) = None \<and>
   crit_wh (projr (MotLoss_init (opts0\<lparr>opt_unsup := False, opt_reg_loss := ''l2''\<rparr>) states_sup)) = None \<and>
   init_forward crit0 (opts0\<lparr>opt_unsup := False, opt_reg_loss := ''l2''\<rparr>) states_sup
     [(''orig'', [1])] = Inl TypeError"
  by (simp add: init_forward_def MotLoss_init_def opts0_def states_sup_def forward_def
      dict_get_def init_results_def stage_hm_wh_def crit0_def dict_add_def call_module_def
      py_get_def py_index_def Let_def)

section \<open>random\_affine\<close>


















end
